theory Spec2Isabelle
  imports Main "HOL-Library.Sublist" "HOL-Library.Word"
begin

section \<open>The upload server: data model\<close>

text \<open>
  A shallow embedding of \<^verbatim>\<open>src/index.ts\<close> (class \<^verbatim>\<open>UploadMCPServer\<close>, version 1.2.0):
  the two tool handlers \<^verbatim>\<open>handleUploadFile\<close> and \<^verbatim>\<open>handleUploadFileContent\<close> and
  \<^verbatim>\<open>detectContentType\<close>.

  JavaScript strings are modelled as \<^typ>\<open>string\<close>: one \<^typ>\<open>char\<close> per code unit, for
  strings whose code units are below 256. A file's content and a \<^verbatim>\<open>Buffer\<close> are lists of
  bytes.
\<close>

type_synonym byte = "8 word"

text \<open>
  \<^verbatim>\<open>ErrorCode\<close> and \<^verbatim>\<open>McpError\<close> come from the MCP SDK. The constructor of \<^verbatim>\<open>McpError\<close>
  passes \<^verbatim>\<open>`MCP error ${code}: ${message}`\<close> to \<^verbatim>\<open>Error\<close>, so that text is what
  \<^verbatim>\<open>error.message\<close> reads afterwards.
\<close>

datatype ErrorCode = InvalidParams | InternalError | MethodNotFound

fun code_number :: "ErrorCode \<Rightarrow> string" where
  "code_number InvalidParams = ''-32602''"
| "code_number InternalError = ''-32603''"
| "code_number MethodNotFound = ''-32601''"

record mcp_error =
  code :: ErrorCode
  message :: string

definition McpError :: "ErrorCode \<Rightarrow> string \<Rightarrow> mcp_error" where
  "McpError c m = \<lparr>code = c, message = ''MCP error '' @ code_number c @ '': '' @ m\<rparr>"

text \<open>What a \<^verbatim>\<open>catch (error)\<close> clause can receive: an \<^verbatim>\<open>McpError\<close> or a plain \<^verbatim>\<open>Error\<close>.\<close>

datatype js_error = McpThrown mcp_error | ErrorThrown string

text \<open>\<^verbatim>\<open>error instanceof Error ? error.message : String(error)\<close>; both kinds are \<^verbatim>\<open>Error\<close>s.\<close>

fun error_message :: "js_error \<Rightarrow> string" where
  "error_message (McpThrown e) = message e"
| "error_message (ErrorThrown m) = m"

text \<open>
  The arguments arrive as \<^verbatim>\<open>request.params.arguments as any\<close>: a field may be missing
  (\<^const>\<open>None\<close>) whatever the declared type says.
\<close>

record upload_file_args =
  file_path :: "string option"
  content_type :: "string option"

record upload_file_content_args =
  content :: "string option"
  filename :: "string option"
  mime_type :: "string option"

text \<open>\<^verbatim>\<open>!s\<close> for an optional string: \<^verbatim>\<open>undefined\<close> and the empty string are falsy.\<close>

fun falsy :: "string option \<Rightarrow> bool" where
  "falsy None = True"
| "falsy (Some s) = (s = [])"

text \<open>\<^verbatim>\<open>a || b\<close> where \<^verbatim>\<open>b\<close> is a string.\<close>

fun or_else :: "string option \<Rightarrow> string \<Rightarrow> string" where
  "or_else None d = d"
| "or_else (Some s) d = (if s = [] then d else s)"

text \<open>The objects handed to \<^verbatim>\<open>JSON.stringify\<close> on success.\<close>

record upload_file_result =
  success :: bool
  r_file_path :: string
  folder_id :: string
  original_filename :: string
  r_content_type :: string
  remote_path :: string
  url :: string
  r_message :: string

record upload_file_content_result =
  c_success :: bool
  c_filename :: string
  c_folder_id :: string
  c_mime_type :: string
  c_remote_path :: string
  c_url :: string
  content_size :: nat
  c_message :: string

section \<open>The environment\<close>

text \<open>
  One spawned process: its argument vector, and the bytes that the file named after
  \<^verbatim>\<open>-T\<close> held when the process was spawned (what the PUT would send).
\<close>

record transfer =
  command :: "string list"
  body :: "byte list option"

text \<open>
  The mutable world a call runs in: the regular files on disk, how many identifiers
  \<^verbatim>\<open>randomUUID\<close> has handed out, the processes spawned so far, and the lines written by
  \<^verbatim>\<open>console.error\<close>.
\<close>

record world =
  fs :: "string \<rightharpoonup> byte list"
  uuid_count :: nat
  spawned :: "transfer list"
  console :: "string list"

text \<open>
  What \<^verbatim>\<open>Bun.spawn\<close> followed by reading both pipes and awaiting \<^verbatim>\<open>exited\<close> gives: the
  spawn itself throws, or the process exits with a code, its stdout and its stderr.
\<close>

datatype proc_result = SpawnError string | Exited int string string

text \<open>
  What the code cannot decide: the identifiers \<^verbatim>\<open>randomUUID\<close> returns, whether
  \<^verbatim>\<open>Bun.write\<close> and \<^verbatim>\<open>delete\<close> throw (and with what message), and what a call of
  \<^verbatim>\<open>Bun.spawn\<close> gives when \<open>n\<close> processes have been started so far (\<open>curl e n\<close>): it
  throws, or the process starts and ends as said. The curl process is taken not to
  change the local disk.
\<close>

record env =
  uuid_source :: "nat \<Rightarrow> string"
  write_error :: "string \<Rightarrow> string option"
  delete_error :: "string \<Rightarrow> string option"
  curl :: "nat \<Rightarrow> proc_result"

definition randomUUID :: "env \<Rightarrow> world \<Rightarrow> string \<times> world" where
  "randomUUID e w = (uuid_source e (uuid_count w), w\<lparr>uuid_count := Suc (uuid_count w)\<rparr>)"

text \<open>\<^verbatim>\<open>await Bun.file(p).exists()\<close>\<close>

definition exists_file :: "world \<Rightarrow> string \<Rightarrow> bool" where
  "exists_file w p = (fs w p \<noteq> None)"

text \<open>\<^verbatim>\<open>await Bun.write(p, buffer)\<close>: throws, or creates or replaces the file.\<close>

definition Bun_write :: "env \<Rightarrow> string \<Rightarrow> byte list \<Rightarrow> world \<Rightarrow> string + world" where
  "Bun_write e p buf w =
     (case write_error e p of
        Some m \<Rightarrow> Inl m
      | None \<Rightarrow> Inr (w\<lparr>fs := (fs w)(p \<mapsto> buf)\<rparr>))"

text \<open>\<^verbatim>\<open>await Bun.file(p).delete()\<close>: throws (the file stays as it was), or removes the file.\<close>

definition Bun_delete :: "env \<Rightarrow> string \<Rightarrow> world \<Rightarrow> string + world" where
  "Bun_delete e p w =
     (case delete_error e p of
        Some m \<Rightarrow> Inl m
      | None \<Rightarrow>
          (if fs w p = None then Inl (''ENOENT: no such file or directory, unlink '' @ p)
           else Inr (w\<lparr>fs := (fs w)(p := None)\<rparr>)))"

text \<open>
  \<^verbatim>\<open>Bun.spawn(uploadCommand, ...)\<close> up to \<^verbatim>\<open>await uploadProcess.exited\<close>; \<open>src\<close> is the
  path given after \<^verbatim>\<open>-T\<close>. A process that starts is recorded; when \<^verbatim>\<open>Bun.spawn\<close> throws,
  no process exists and nothing is recorded.
\<close>

definition spawn :: "env \<Rightarrow> string list \<Rightarrow> string \<Rightarrow> world \<Rightarrow> proc_result \<times> world" where
  "spawn e cmd src w =
     (case curl e (length (spawned w)) of
        SpawnError m \<Rightarrow> (SpawnError m, w)
      | Exited exitCode out err \<Rightarrow>
          (Exited exitCode out err,
           w\<lparr>spawned := spawned w @ [\<lparr>command = cmd, body = fs w src\<rparr>]\<rparr>))"

section \<open>Library functions of the runtime\<close>

subsection \<open>\<^verbatim>\<open>node:path\<close> (POSIX) and \<^verbatim>\<open>String.prototype.toLowerCase\<close>\<close>

text \<open>
  \<^verbatim>\<open>basename(p)\<close>: trailing slashes are dropped, then the part after the last slash
  is returned.
\<close>

definition basename :: "string \<Rightarrow> string" where
  "basename p =
     rev (takeWhile (\<lambda>c. c \<noteq> CHR ''/'') (dropWhile (\<lambda>c. c = CHR ''/'') (rev p)))"

text \<open>
  \<^verbatim>\<open>extname(p)\<close>: from the last dot of the base name to its end; empty when the base
  name has no dot, when its only dot is its first character, or when it is \<^verbatim>\<open>..\<close>.
\<close>

definition extname :: "string \<Rightarrow> string" where
  "extname p =
     (let b = basename p;
          after = rev (takeWhile (\<lambda>c. c \<noteq> CHR ''.'') (rev b))
      in if CHR ''.'' \<notin> set b then []
         else if Suc (length after) = length b then []
         else if b = ''..'' then []
         else CHR ''.'' # after)"

definition lower_char :: "char \<Rightarrow> char" where
  "lower_char c =
     (let n = (of_char c :: nat)
      in if (65 \<le> n \<and> n \<le> 90) \<or> (192 \<le> n \<and> n \<le> 222 \<and> n \<noteq> 215)
         then char_of (n + 32) else c)"

definition toLowerCase :: "string \<Rightarrow> string" where
  "toLowerCase s = map lower_char s"

subsection \<open>Base64\<close>

definition b64_chars :: string where
  "b64_chars = ''ABCDEFGHIJKLMNOPQRSTUVWXYZabcdefghijklmnopqrstuvwxyz0123456789+/''"

definition b64_char :: "nat \<Rightarrow> char" where
  "b64_char n = b64_chars ! n"

definition b64_value :: "char \<Rightarrow> nat option" where
  "b64_value c = map_of (zip b64_chars [0..<64]) c"

text \<open>Groups of four sextets give three bytes; two or three left over give one or two.\<close>

fun sextets_to_bytes :: "nat list \<Rightarrow> byte list" where
  "sextets_to_bytes (a # b # c # d # rest) =
     [of_nat (a * 4 + b div 16), of_nat ((b mod 16) * 16 + c div 4), of_nat ((c mod 4) * 64 + d)]
     @ sextets_to_bytes rest"
| "sextets_to_bytes [a, b, c] = [of_nat (a * 4 + b div 16), of_nat ((b mod 16) * 16 + c div 4)]"
| "sextets_to_bytes [a, b] = [of_nat (a * 4 + b div 16)]"
| "sextets_to_bytes _ = []"

text \<open>
  \<^verbatim>\<open>atob(s)\<close> is the forgiving-base64 decode of the HTML standard: ASCII whitespace is
  removed; if the length is then a multiple of four, one or two trailing \<^verbatim>\<open>=\<close> are
  removed; a length of 1 modulo 4, or any character outside the alphabet, is a failure
  (\<^verbatim>\<open>atob\<close> throws, here \<^const>\<open>None\<close>).
\<close>

definition ascii_whitespace :: "char \<Rightarrow> bool" where
  "ascii_whitespace c = (c \<in> set [CHR 0x09, CHR 0x0A, CHR 0x0C, CHR 0x0D, CHR 0x20])"

definition strip_padding :: "string \<Rightarrow> string" where
  "strip_padding d =
     (if length d mod 4 = 0 then
        (if suffix ''=='' d then take (length d - 2) d
         else if suffix ''='' d then take (length d - 1) d
         else d)
      else d)"

definition atob :: "string \<Rightarrow> byte list option" where
  "atob s =
     (let d = strip_padding (filter (\<lambda>c. \<not> ascii_whitespace c) s)
      in if length d mod 4 = 1 then None
         else if list_ex (\<lambda>c. b64_value c = None) d then None
         else Some (sextets_to_bytes (map (\<lambda>c. the (b64_value c)) d)))"

text \<open>
  \<^verbatim>\<open>Buffer.from(s, 'base64')\<close> never throws: decoding stops at the first \<^verbatim>\<open>=\<close>, characters
  outside the alphabet are skipped, and \<^verbatim>\<open>-\<close> and \<^verbatim>\<open>_\<close> stand for \<^verbatim>\<open>+\<close> and \<^verbatim>\<open>/\<close> (the
  behaviour Node documents). On a padded encoding every decoder gives the same bytes;
  what is skipped matters only for the bytes obtained from other input.
\<close>

definition b64_value_lenient :: "char \<Rightarrow> nat option" where
  "b64_value_lenient c =
     (if c = CHR ''-'' then Some 62 else if c = CHR ''_'' then Some 63 else b64_value c)"

definition sextets :: "string \<Rightarrow> nat list" where
  "sextets s = List.map_filter b64_value_lenient (takeWhile (\<lambda>c. c \<noteq> CHR ''='') s)"

definition Buffer_from_base64 :: "string \<Rightarrow> byte list" where
  "Buffer_from_base64 s = sextets_to_bytes (sextets s)"

text \<open>
  Standard base64 encoding with padding (RFC 4648), what
  \<^verbatim>\<open>buffer.toString('base64')\<close> produces: the encoding the round-trip property starts from.
\<close>

fun base64_encode :: "byte list \<Rightarrow> string" where
  "base64_encode [] = []"
| "base64_encode [a] =
     [b64_char (unat a div 4), b64_char ((unat a mod 4) * 16), CHR ''='', CHR ''='']"
| "base64_encode [a, b] =
     [b64_char (unat a div 4), b64_char ((unat a mod 4) * 16 + unat b div 16),
      b64_char ((unat b mod 16) * 4), CHR ''='']"
| "base64_encode (a # b # c # rest) =
     [b64_char (unat a div 4), b64_char ((unat a mod 4) * 16 + unat b div 16),
      b64_char ((unat b mod 16) * 4 + unat c div 64), b64_char (unat c mod 64)]
     @ base64_encode rest"

subsection \<open>The regular expression \<^verbatim>\<open>/^data:(.+?);base64,(.+)$/\<close>\<close>

text \<open>
  \<^verbatim>\<open>.\<close> matches any character but a line terminator, and the expression is anchored at
  both ends, so a line terminator after \<^verbatim>\<open>data:\<close> rules a match out. The lazy first
  group takes the shortest non-empty text that is followed by \<^verbatim>\<open>;base64,\<close> and a
  non-empty rest.
\<close>

definition line_terminator :: "char \<Rightarrow> bool" where
  "line_terminator c = (c = CHR 0x0A \<or> c = CHR 0x0D)"

fun split_base64 :: "string \<Rightarrow> string \<Rightarrow> (string \<times> string) option" where
  "split_base64 acc [] = None"
| "split_base64 acc (c # cs) =
     (if acc \<noteq> [] \<and> prefix '';base64,'' (c # cs) \<and> drop 8 (c # cs) \<noteq> []
      then Some (acc, drop 8 (c # cs))
      else split_base64 (acc @ [c]) cs)"

definition match_data_url :: "string \<Rightarrow> (string \<times> string) option" where
  "match_data_url s =
     (if \<not> prefix ''data:'' s then None
      else if list_ex line_terminator (drop 5 s) then None
      else split_base64 [] (drop 5 s))"

section \<open>MIME types\<close>

text \<open>The table of \<^verbatim>\<open>detectContentType\<close>, in the order of the source.\<close>

definition mimeMap :: "(string \<times> string) list" where
  "mimeMap =
    [(''.jpg'', ''image/jpeg''),
     (''.jpeg'', ''image/jpeg''),
     (''.png'', ''image/png''),
     (''.gif'', ''image/gif''),
     (''.webp'', ''image/webp''),
     (''.svg'', ''image/svg+xml''),
     (''.bmp'', ''image/bmp''),
     (''.ico'', ''image/x-icon''),
     (''.tiff'', ''image/tiff''),
     (''.tif'', ''image/tiff''),
     (''.pdf'', ''application/pdf''),
     (''.doc'', ''application/msword''),
     (''.docx'', ''application/vnd.openxmlformats-officedocument.wordprocessingml.document''),
     (''.xls'', ''application/vnd.ms-excel''),
     (''.xlsx'', ''application/vnd.openxmlformats-officedocument.spreadsheetml.sheet''),
     (''.ppt'', ''application/vnd.ms-powerpoint''),
     (''.pptx'', ''application/vnd.openxmlformats-officedocument.presentationml.presentation''),
     (''.txt'', ''text/plain''),
     (''.html'', ''text/html''),
     (''.htm'', ''text/html''),
     (''.css'', ''text/css''),
     (''.js'', ''text/javascript''),
     (''.mjs'', ''text/javascript''),
     (''.json'', ''application/json''),
     (''.xml'', ''application/xml''),
     (''.csv'', ''text/csv''),
     (''.md'', ''text/markdown''),
     (''.zip'', ''application/zip''),
     (''.tar'', ''application/x-tar''),
     (''.gz'', ''application/gzip''),
     (''.7z'', ''application/x-7z-compressed''),
     (''.rar'', ''application/vnd.rar''),
     (''.mp3'', ''audio/mpeg''),
     (''.wav'', ''audio/wav''),
     (''.ogg'', ''audio/ogg''),
     (''.m4a'', ''audio/mp4''),
     (''.flac'', ''audio/flac''),
     (''.mp4'', ''video/mp4''),
     (''.avi'', ''video/x-msvideo''),
     (''.mov'', ''video/quicktime''),
     (''.wmv'', ''video/x-ms-wmv''),
     (''.webm'', ''video/webm''),
     (''.mkv'', ''video/x-matroska''),
     (''.ts'', ''text/typescript''),
     (''.tsx'', ''text/typescript''),
     (''.py'', ''text/x-python''),
     (''.java'', ''text/x-java''),
     (''.c'', ''text/x-c''),
     (''.cpp'', ''text/x-c++''),
     (''.rs'', ''text/x-rust''),
     (''.go'', ''text/x-go'')]"

text \<open>
  \<^verbatim>\<open>mimeMap[ext] || 'image/jpeg'\<close>. The extension is empty or starts with a dot, so the
  lookup never reaches a property inherited from \<^verbatim>\<open>Object.prototype\<close>, and no value of
  the table is the empty string.
\<close>

definition detectContentType :: "string \<Rightarrow> string" where
  "detectContentType filePath =
     (let ext = toLowerCase (extname filePath)
      in case map_of mimeMap ext of Some t \<Rightarrow> t | None \<Rightarrow> ''image/jpeg'')"

text \<open>The table written inline in \<^verbatim>\<open>handleUploadFileContent\<close>.\<close>

definition contentMimeMap :: "(string \<times> string) list" where
  "contentMimeMap =
    [(''.jpg'', ''image/jpeg''),
     (''.jpeg'', ''image/jpeg''),
     (''.png'', ''image/png''),
     (''.gif'', ''image/gif''),
     (''.webp'', ''image/webp''),
     (''.pdf'', ''application/pdf''),
     (''.txt'', ''text/plain''),
     (''.json'', ''application/json''),
     (''.xml'', ''application/xml''),
     (''.zip'', ''application/zip''),
     (''.mp3'', ''audio/mpeg''),
     (''.mp4'', ''video/mp4''),
     (''.wav'', ''audio/wav'')]"

text \<open>
  The block \<^verbatim>\<open>let detectedMimeType = mime_type; if (!detectedMimeType) { ... }\<close> of
  \<^verbatim>\<open>handleUploadFileContent\<close>; \<open>mt\<close> is the value of \<^verbatim>\<open>mime_type\<close> at that point.
\<close>

definition detectedMimeType :: "string option \<Rightarrow> string \<Rightarrow> string" where
  "detectedMimeType mt fname =
     (if falsy mt then
        (let ext = toLowerCase (extname fname)
         in case map_of contentMimeMap ext of Some t \<Rightarrow> t | None \<Rightarrow> ''application/octet-stream'')
      else the mt)"

section \<open>The handlers\<close>

definition public_prefix :: string where
  "public_prefix = ''https://s3.reily.app/public/''"

text \<open>The argument vector built in both handlers.\<close>

definition uploadCommand :: "string \<Rightarrow> string \<Rightarrow> string \<Rightarrow> string list" where
  "uploadCommand remotePath src ctype =
     [''curl'', ''-X'', ''PUT'', public_prefix @ remotePath, ''-T'', src,
      ''-H'', ''Content-Type: '' @ ctype, ''--silent'', ''--fail'']"

text \<open>The body of the \<^verbatim>\<open>try\<close> block of \<^verbatim>\<open>handleUploadFile\<close>; \<^const>\<open>Inl\<close> is a throw.\<close>

definition uploadFile_try ::
  "env \<Rightarrow> string \<Rightarrow> string option \<Rightarrow> world \<Rightarrow> (js_error + upload_file_result) \<times> world" where
  "uploadFile_try e fpath ctype w =
     (if \<not> exists_file w fpath
      then (Inl (McpThrown (McpError InvalidParams (''File not found: '' @ fpath))), w)
      else
        (case randomUUID e w of (folderId, w1) \<Rightarrow>
           (let originalFileName = basename fpath;
                remotePath = folderId @ ''/'' @ originalFileName;
                ctype' = (if falsy ctype then detectContentType fpath else the ctype)
            in case spawn e (uploadCommand remotePath fpath ctype') fpath w1 of
                 (SpawnError m, w2) \<Rightarrow> (Inl (ErrorThrown m), w2)
               | (Exited exitCode out err, w2) \<Rightarrow>
                   (if exitCode \<noteq> 0 then (Inl (ErrorThrown (''Upload failed: '' @ err)), w2)
                    else
                      (let publicUrl = public_prefix @ remotePath
                       in (Inr \<lparr>success = True,
                                r_file_path = fpath,
                                folder_id = folderId,
                                original_filename = originalFileName,
                                r_content_type = ctype',
                                remote_path = remotePath,
                                url = publicUrl,
                                r_message = ''File uploaded successfully to '' @ publicUrl\<rparr>,
                           w2))))))"

text \<open>
  \<^verbatim>\<open>handleUploadFile\<close>: the check of \<^verbatim>\<open>file_path\<close> stands before the \<^verbatim>\<open>try\<close>; whatever
  the \<^verbatim>\<open>try\<close> block throws is caught and thrown again as an \<^verbatim>\<open>InternalError\<close>.
\<close>

definition handleUploadFile ::
  "env \<Rightarrow> upload_file_args \<Rightarrow> world \<Rightarrow> (mcp_error + upload_file_result) \<times> world" where
  "handleUploadFile e args w =
     (if falsy (file_path args)
      then (Inl (McpError InvalidParams ''file_path is required''), w)
      else
        (case uploadFile_try e (the (file_path args)) (content_type args) w of
           (Inl err, w') \<Rightarrow>
             (Inl (McpError InternalError (''Failed to upload file: '' @ error_message err)), w')
         | (Inr r, w') \<Rightarrow> (Inr r, w')))"

text \<open>
  The removal of the \<^verbatim>\<open>data:\<close> prefix: the new values of \<^verbatim>\<open>mime_type\<close> and
  \<^verbatim>\<open>base64Content\<close>.
\<close>

definition strip_data_url :: "string option \<Rightarrow> string \<Rightarrow> string option \<times> string" where
  "strip_data_url mt c =
     (if prefix ''data:'' c then
        (case match_data_url c of
           Some (m, payload) \<Rightarrow> (Some (or_else mt m), payload)
         | None \<Rightarrow> (mt, c))
      else (mt, c))"

text \<open>
  The clean-up after the transfer: a failing \<^verbatim>\<open>delete\<close> is caught and written to
  \<^verbatim>\<open>console.error\<close>.
\<close>

definition cleanup :: "env \<Rightarrow> string \<Rightarrow> world \<Rightarrow> world" where
  "cleanup e p w =
     (case Bun_delete e p w of
        Inl m \<Rightarrow> w\<lparr>console := console w @ [''Warning: Failed to clean up temporary file: '' @ m]\<rparr>
      | Inr w' \<Rightarrow> w')"

text \<open>The body of the \<^verbatim>\<open>try\<close> block of \<^verbatim>\<open>handleUploadFileContent\<close>.\<close>

definition uploadFileContent_try ::
  "env \<Rightarrow> string \<Rightarrow> string \<Rightarrow> string option \<Rightarrow> world
     \<Rightarrow> (js_error + upload_file_content_result) \<times> world" where
  "uploadFileContent_try e cont fname mt0 w =
     (case strip_data_url mt0 cont of (mt, base64Content) \<Rightarrow>
        (case atob (take 100 base64Content) of
           None \<Rightarrow> (Inl (McpThrown (McpError InvalidParams ''Invalid base64 content provided'')), w)
         | Some _ \<Rightarrow>
            (case randomUUID e w of (folderId, w1) \<Rightarrow>
               (let originalFileName = basename fname;
                    remotePath = folderId @ ''/'' @ originalFileName;
                    buffer = Buffer_from_base64 base64Content;
                    tempFilePath = ''/tmp/'' @ folderId @ ''_'' @ originalFileName
                in case Bun_write e tempFilePath buffer w1 of
                     Inl m \<Rightarrow> (Inl (ErrorThrown m), w1)
                   | Inr w2 \<Rightarrow>
                      (let dmt = detectedMimeType mt fname
                       in case spawn e (uploadCommand remotePath tempFilePath dmt) tempFilePath w2 of
                            (SpawnError m, w3) \<Rightarrow> (Inl (ErrorThrown m), w3)
                          | (Exited exitCode out err, w3) \<Rightarrow>
                             (let w4 = cleanup e tempFilePath w3
                              in if exitCode \<noteq> 0
                                 then (Inl (ErrorThrown (''Upload failed: '' @ err)), w4)
                                 else
                                   (let publicUrl = public_prefix @ remotePath
                                    in (Inr \<lparr>c_success = True,
                                             c_filename = originalFileName,
                                             c_folder_id = folderId,
                                             c_mime_type = dmt,
                                             c_remote_path = remotePath,
                                             c_url = publicUrl,
                                             content_size = length buffer,
                                             c_message =
                                               ''File content uploaded successfully to '' @ publicUrl\<rparr>,
                                        w4))))))))"

definition handleUploadFileContent ::
  "env \<Rightarrow> upload_file_content_args \<Rightarrow> world
     \<Rightarrow> (mcp_error + upload_file_content_result) \<times> world" where
  "handleUploadFileContent e args w =
     (if falsy (content args) \<or> falsy (filename args)
      then (Inl (McpError InvalidParams ''content and filename are required''), w)
      else
        (case uploadFileContent_try e (the (content args)) (the (filename args)) (mime_type args) w of
           (Inl err, w') \<Rightarrow>
             (Inl (McpError InternalError
                    (''Failed to upload file content: '' @ error_message err)), w')
         | (Inr r, w') \<Rightarrow> (Inr r, w')))"

section \<open>Auxiliary notions\<close>

text \<open>
  The precedence of MIME types as the specification words it: the explicit argument if
  it is non-empty, else the type taken from a \<^verbatim>\<open>data:<mime>;base64,<payload>\<close> prefix of
  the content, else the table entry of the lowercased extension, else
  \<^verbatim>\<open>application/octet-stream\<close>.
\<close>

definition mime_precedence :: "string option \<Rightarrow> string \<Rightarrow> string \<Rightarrow> string" where
  "mime_precedence explicit cont fname =
     (case explicit of
        Some (x # xs) \<Rightarrow> x # xs
      | _ \<Rightarrow>
        (case match_data_url cont of
           Some (m, payload) \<Rightarrow> m
         | None \<Rightarrow>
           (case map_of contentMimeMap (toLowerCase (extname fname)) of
              Some t \<Rightarrow> t
            | None \<Rightarrow> ''application/octet-stream'')))"

text \<open>
  The shape of a padded encoding: a run of alphabet characters whose length is a
  multiple of four, then nothing or one last group padded with \<^verbatim>\<open>=\<close>.
\<close>

definition padded_tail :: "string \<Rightarrow> bool" where
  "padded_tail t =
     (t = [] \<or>
      (\<exists>x \<in> set b64_chars. \<exists>y \<in> set b64_chars. t = [x, y, CHR ''='', CHR ''='']) \<or>
      (\<exists>x \<in> set b64_chars. \<exists>y \<in> set b64_chars. \<exists>z \<in> set b64_chars. t = [x, y, z, CHR ''='']))"

definition encoded_shape :: "string \<Rightarrow> bool" where
  "encoded_shape s =
     (\<exists>d t. s = d @ t \<and> set d \<subseteq> set b64_chars \<and> length d mod 4 = 0 \<and> padded_tail t)"

text \<open>
  When a call gets as far as calling \<^verbatim>\<open>Bun.spawn\<close>: \<^verbatim>\<open>upload_file\<close> needs a non-empty path
  of an existing file; \<^verbatim>\<open>upload_file_content\<close> needs non-empty content and file name,
  a prefix that \<^verbatim>\<open>atob\<close> accepts, and a \<^verbatim>\<open>Bun.write\<close> that does not throw. The curl
  process then starts unless \<^verbatim>\<open>Bun.spawn\<close> throws (\<open>curl_starts\<close>).
\<close>

definition curl_starts :: "env \<Rightarrow> world \<Rightarrow> bool" where
  "curl_starts e w =
     (case curl e (length (spawned w)) of
        SpawnError m \<Rightarrow> False
      | Exited exitCode out err \<Rightarrow> True)"

definition temp_path :: "env \<Rightarrow> world \<Rightarrow> string \<Rightarrow> string" where
  "temp_path e w fname = ''/tmp/'' @ uuid_source e (uuid_count w) @ ''_'' @ basename fname"

definition file_call_valid :: "world \<Rightarrow> upload_file_args \<Rightarrow> bool" where
  "file_call_valid w a =
     (case file_path a of
        None \<Rightarrow> False
      | Some p \<Rightarrow> p \<noteq> [] \<and> exists_file w p)"

definition prefix_check_passes :: "upload_file_content_args \<Rightarrow> bool" where
  "prefix_check_passes a =
     (case (content a, filename a) of
        (Some c, Some f) \<Rightarrow>
          c \<noteq> [] \<and> f \<noteq> [] \<and> atob (take 100 (snd (strip_data_url (mime_type a) c))) \<noteq> None
      | _ \<Rightarrow> False)"

definition content_call_staged :: "env \<Rightarrow> world \<Rightarrow> upload_file_content_args \<Rightarrow> bool" where
  "content_call_staged e w a =
     (case filename a of
        None \<Rightarrow> False
      | Some f \<Rightarrow> prefix_check_passes a \<and> write_error e (temp_path e w f) = None)"

section \<open>Concrete environments and calls\<close>

definition example_env :: env where
  "example_env =
     \<lparr>uuid_source = (\<lambda>n. ''6f1c2a9e-0b7d-4c3a-9e55-1d2e3f4a5b6c'' @ replicate n CHR ''0''),
      write_error = (\<lambda>p. None),
      delete_error = (\<lambda>p. None),
      curl = (\<lambda>n. Exited 0 [] [])\<rparr>"

text \<open>The same, but every \<^verbatim>\<open>delete\<close> throws.\<close>

definition undeletable_env :: env where
  "undeletable_env =
     example_env\<lparr>delete_error := (\<lambda>p. Some ''EPERM: operation not permitted, unlink'')\<rparr>"

text \<open>The same, but every curl process exits with code 22 (\<^verbatim>\<open>--fail\<close> on an HTTP error).\<close>

definition rejecting_env :: env where
  "rejecting_env =
     example_env\<lparr>curl := (\<lambda>n. Exited 22 [] ''curl: (22) The requested URL returned error: 403'')\<rparr>"

text \<open>The same, but \<^verbatim>\<open>Bun.spawn\<close> throws: there is no curl to run.\<close>

definition spawnless_env :: env where
  "spawnless_env =
     example_env\<lparr>curl := (\<lambda>n. SpawnError ''Executable not found in $PATH: curl'')\<rparr>"

definition example_world :: world where
  "example_world =
     \<lparr>fs = [''/tmp/a.png'' \<mapsto> [0x89, 0x50, 0x4E, 0x47], ''/tmp/data.bin'' \<mapsto> [0x00, 0x01]],
      uuid_count = 0,
      spawned = [],
      console = []\<rparr>"

definition png_call :: upload_file_args where
  "png_call = \<lparr>file_path = Some ''/tmp/a.png'', content_type = None\<rparr>"

definition bin_call :: upload_file_args where
  "bin_call = \<lparr>file_path = Some ''/tmp/data.bin'', content_type = None\<rparr>"

definition missing_call :: upload_file_args where
  "missing_call = \<lparr>file_path = Some ''/tmp/missing.txt'', content_type = None\<rparr>"

definition hello_call :: upload_file_content_args where
  "hello_call = \<lparr>content = Some ''aGVsbG8='', filename = Some ''hello.txt'', mime_type = None\<rparr>"

definition png_result :: upload_file_result where
  "png_result =
     \<lparr>success = True,
      r_file_path = ''/tmp/a.png'',
      folder_id = ''6f1c2a9e-0b7d-4c3a-9e55-1d2e3f4a5b6c'',
      original_filename = ''a.png'',
      r_content_type = ''image/png'',
      remote_path = ''6f1c2a9e-0b7d-4c3a-9e55-1d2e3f4a5b6c/a.png'',
      url = ''https://s3.reily.app/public/6f1c2a9e-0b7d-4c3a-9e55-1d2e3f4a5b6c/a.png'',
      r_message =
        ''File uploaded successfully to https://s3.reily.app/public/6f1c2a9e-0b7d-4c3a-9e55-1d2e3f4a5b6c/a.png''\<rparr>"

definition hello_result :: upload_file_content_result where
  "hello_result =
     \<lparr>c_success = True,
      c_filename = ''hello.txt'',
      c_folder_id = ''6f1c2a9e-0b7d-4c3a-9e55-1d2e3f4a5b6c'',
      c_mime_type = ''text/plain'',
      c_remote_path = ''6f1c2a9e-0b7d-4c3a-9e55-1d2e3f4a5b6c/hello.txt'',
      c_url = ''https://s3.reily.app/public/6f1c2a9e-0b7d-4c3a-9e55-1d2e3f4a5b6c/hello.txt'',
      content_size = 5,
      c_message =
        ''File content uploaded successfully to https://s3.reily.app/public/6f1c2a9e-0b7d-4c3a-9e55-1d2e3f4a5b6c/hello.txt''\<rparr>"

definition hello_temp :: string where
  "hello_temp = ''/tmp/6f1c2a9e-0b7d-4c3a-9e55-1d2e3f4a5b6c_hello.txt''"

definition not_base64_call :: upload_file_content_args where
  "not_base64_call =
     \<lparr>content = Some ''!!!not-base64!!!'', filename = Some ''a.txt'', mime_type = None\<rparr>"

definition empty_call :: upload_file_content_args where
  "empty_call = \<lparr>content = Some (base64_encode []), filename = Some ''empty.bin'', mime_type = None\<rparr>"

definition data_url_call :: upload_file_content_args where
  "data_url_call =
     \<lparr>content = Some ''data:image/png;base64,aGVsbG8='', filename = Some ''hello.txt'',
      mime_type = None\<rparr>"

definition explicit_call :: upload_file_content_args where
  "explicit_call =
     \<lparr>content = Some ''data:image/png;base64,aGVsbG8='', filename = Some ''hello.txt'',
      mime_type = Some ''text/csv''\<rparr>"

definition bin_content_call :: upload_file_content_args where
  "bin_content_call = \<lparr>content = Some ''AAE='', filename = Some ''data.bin'', mime_type = None\<rparr>"

text \<open>One hundred alphabet characters, then characters outside the alphabet.\<close>

definition late_garbage :: string where
  "late_garbage = replicate 100 CHR ''A'' @ ''!!!not-base64!!!''"

definition late_garbage_call :: upload_file_content_args where
  "late_garbage_call = \<lparr>content = Some late_garbage, filename = Some ''g.bin'', mime_type = None\<rparr>"

section \<open>Base64: encoding, decoding and the prefix check\<close>

text \<open>
  Decoding a padded encoding gives the bytes back, and \<^verbatim>\<open>atob\<close> accepts the first 100
  characters of every padded encoding.
\<close>

lemma distinct_b64_chars: "distinct b64_chars"
  by (simp add: b64_chars_def)

lemma length_b64_chars: "length b64_chars = 64"
  by (simp add: b64_chars_def)

lemma b64_value_b64_char: "n < 64 \<Longrightarrow> b64_value (b64_char n) = Some n"
  unfolding b64_value_def b64_char_def
  using map_of_zip_nth[of b64_chars "[0..<64]" n] distinct_b64_chars length_b64_chars
  by simp

lemma b64_value_Some_iff: "(b64_value c \<noteq> None) = (c \<in> set b64_chars)"
  unfolding b64_value_def
  by (metis length_b64_chars length_upt diff_zero map_of_zip_is_None)

lemma b64_char_in: "n < 64 \<Longrightarrow> b64_char n \<in> set b64_chars"
  by (simp add: b64_char_def length_b64_chars)

lemma b64_chars_plain:
  "c \<in> set b64_chars \<Longrightarrow> \<not> ascii_whitespace c \<and> c \<noteq> CHR ''='' \<and> c \<noteq> CHR '':'' \<and> c \<noteq> CHR ''-'' \<and> c \<noteq> CHR ''_''"
  by (auto simp: b64_chars_def ascii_whitespace_def)

lemma b64_char_not_pad: "n < 64 \<Longrightarrow> b64_char n \<noteq> CHR ''=''"
  using b64_char_in b64_chars_plain by blast

lemma b64_value_lenient_b64_char: "n < 64 \<Longrightarrow> b64_value_lenient (b64_char n) = Some n"
  using b64_char_in[of n] b64_chars_plain[of "b64_char n"]
  by (simp add: b64_value_lenient_def b64_value_b64_char)

lemma sextets_Nil: "sextets [] = []"
  by (simp add: sextets_def)

lemma sextets_pad: "sextets (CHR ''='' # s) = []"
  by (simp add: sextets_def)

lemma sextets_char: "n < 64 \<Longrightarrow> sextets (b64_char n # s) = n # sextets s"
  by (simp add: sextets_def b64_char_not_pad b64_value_lenient_b64_char)

lemma unat_byte_less: "unat (x :: byte) < 256"
  using unsigned_less[of x] by simp

lemma triple_bounds:
  fixes a b c :: nat
  assumes "a < 256" "b < 256" "c < 256"
  shows "a div 4 < 64" "(a mod 4) * 16 + b div 16 < 64" "(b mod 16) * 4 + c div 64 < 64"
    "c mod 64 < 64" "(a mod 4) * 16 < 64" "(b mod 16) * 4 < 64"
  using assms by auto

lemma triple_back:
  fixes a b c :: nat
  assumes "a < 256" "b < 256" "c < 256"
  shows "(a div 4) * 4 + ((a mod 4) * 16 + b div 16) div 16 = a"
    "(((a mod 4) * 16 + b div 16) mod 16) * 16 + ((b mod 16) * 4 + c div 64) div 4 = b"
    "(((b mod 16) * 4 + c div 64) mod 4) * 64 + c mod 64 = c"
    "(a div 4) * 4 + ((a mod 4) * 16) div 16 = a"
    "(((a mod 4) * 16 + b div 16) mod 16) * 16 + ((b mod 16) * 4) div 4 = b"
  using assms by auto

lemma decode_group:
  fixes a b c :: nat
  assumes "a < 256" "b < 256" "c < 256"
  shows "sextets_to_bytes (a div 4 # ((a mod 4) * 16 + b div 16) # ((b mod 16) * 4 + c div 64)
            # (c mod 64) # rest)
         = [of_nat a, of_nat b, of_nat c] @ sextets_to_bytes rest"
    and "sextets_to_bytes [a div 4, (a mod 4) * 16 + b div 16, (b mod 16) * 4] = [of_nat a, of_nat b]"
    and "sextets_to_bytes [a div 4, (a mod 4) * 16] = [of_nat a]"
  by (simp_all only: sextets_to_bytes.simps triple_back[OF assms])

lemma sextets_encode_round_trip: "sextets_to_bytes (sextets (base64_encode bs)) = bs"
proof (induction bs rule: base64_encode.induct)
  case 1
  show ?case by (simp add: sextets_Nil)
next
  case (2 a)
  have a: "unat a < 256" by (rule unat_byte_less)
  have "sextets (base64_encode [a]) = [unat a div 4, (unat a mod 4) * 16]"
    by (simp add: sextets_char sextets_pad triple_bounds[OF a a a])
  then show ?case
    by (simp only: decode_group[OF a a a] of_nat_unat ucast_id)
next
  case (3 a b)
  have a: "unat a < 256" and b: "unat b < 256" by (rule unat_byte_less)+
  have "sextets (base64_encode [a, b])
        = [unat a div 4, (unat a mod 4) * 16 + unat b div 16, (unat b mod 16) * 4]"
    by (simp add: sextets_char sextets_pad triple_bounds[OF a b b])
  then show ?case
    by (simp only: decode_group[OF a b b] of_nat_unat ucast_id)
next
  case (4 a b c rest)
  have a: "unat a < 256" and b: "unat b < 256" and c: "unat c < 256" by (rule unat_byte_less)+
  have "sextets (base64_encode (a # b # c # rest))
        = unat a div 4 # ((unat a mod 4) * 16 + unat b div 16)
          # ((unat b mod 16) * 4 + unat c div 64) # (unat c mod 64)
          # sextets (base64_encode rest)"
    by (simp add: sextets_char triple_bounds[OF a b c])
  then show ?case
    by (simp only: decode_group[OF a b c] "4.IH" of_nat_unat ucast_id append.simps)
qed


lemma filter_ws_alphabet:
  "set d \<subseteq> set b64_chars \<Longrightarrow> filter (\<lambda>c. \<not> ascii_whitespace c) d = d"
  using b64_chars_plain by (induction d) auto

lemma strip_padding_alphabet:
  assumes "set d \<subseteq> set b64_chars"
  shows "strip_padding d = d"
proof -
  have "CHR ''='' \<notin> set d" using assms b64_chars_plain by blast
  then have "\<not> suffix ''=='' d" "\<not> suffix ''='' d"
    by (auto simp: suffix_def)
  then show ?thesis by (simp add: strip_padding_def)
qed

lemma alphabet_valid: "set d \<subseteq> set b64_chars \<Longrightarrow> \<forall>c \<in> set d. b64_value c \<noteq> None"
  using b64_value_Some_iff by blast

lemma atob_alphabet:
  assumes "set d \<subseteq> set b64_chars" "length d mod 4 \<noteq> 1"
  shows "atob d \<noteq> None"
  using assms
  by (auto simp: atob_def filter_ws_alphabet strip_padding_alphabet Let_def list_ex_iff
      b64_value_Some_iff[symmetric])

lemma atob_padded2:
  assumes "set d \<subseteq> set b64_chars" "length d mod 4 = 0" "x \<in> set b64_chars" "y \<in> set b64_chars"
  shows "atob (d @ [x, y, CHR ''='', CHR ''='']) \<noteq> None"
proof -
  let ?s = "d @ [x, y, CHR ''='', CHR ''='']"
  have f: "filter (\<lambda>c. \<not> ascii_whitespace c) ?s = ?s"
    using assms filter_ws_alphabet[of d] b64_chars_plain[of x] b64_chars_plain[of y]
    by (simp add: ascii_whitespace_def)
  have l: "length ?s mod 4 = 0" using assms(2) by (simp add: mod_Suc)
  have "suffix ''=='' ?s" by (simp add: suffix_def)
  then have s: "strip_padding ?s = d @ [x, y]"
    using l by (simp add: strip_padding_def)
  have "length (d @ [x, y]) mod 4 = 2" using assms(2) by (simp add: mod_Suc)
  moreover have "\<forall>c \<in> set (d @ [x, y]). b64_value c \<noteq> None"
    using assms by (intro alphabet_valid) simp
  ultimately show ?thesis
    unfolding atob_def f s Let_def by (auto simp: list_ex_iff)
qed

lemma atob_padded1:
  assumes "set d \<subseteq> set b64_chars" "length d mod 4 = 0"
    "x \<in> set b64_chars" "y \<in> set b64_chars" "z \<in> set b64_chars"
  shows "atob (d @ [x, y, z, CHR ''='']) \<noteq> None"
proof -
  let ?s = "d @ [x, y, z, CHR ''='']"
  have f: "filter (\<lambda>c. \<not> ascii_whitespace c) ?s = ?s"
    using assms filter_ws_alphabet[of d] b64_chars_plain[of x] b64_chars_plain[of y]
      b64_chars_plain[of z]
    by (simp add: ascii_whitespace_def)
  have l: "length ?s mod 4 = 0" using assms(2) by (simp add: mod_Suc)
  have "z \<noteq> CHR ''=''" using assms(5) b64_chars_plain by blast
  then have "\<not> suffix ''=='' ?s" by (auto simp: suffix_def append_eq_append_conv2 Cons_eq_append_conv)
  moreover have "suffix ''='' ?s" by (simp add: suffix_def)
  ultimately have s: "strip_padding ?s = d @ [x, y, z]"
    using l by (simp add: strip_padding_def)
  have "length (d @ [x, y, z]) mod 4 = 3" using assms(2) by (simp add: mod_Suc)
  moreover have "\<forall>c \<in> set (d @ [x, y, z]). b64_value c \<noteq> None"
    using assms by (intro alphabet_valid) simp
  ultimately show ?thesis
    unfolding atob_def f s Let_def by (auto simp: list_ex_iff)
qed


lemma padded_tail2:
  "x \<in> set b64_chars \<Longrightarrow> y \<in> set b64_chars \<Longrightarrow> padded_tail [x, y, CHR ''='', CHR ''='']"
  unfolding padded_tail_def by blast

lemma padded_tail1:
  "x \<in> set b64_chars \<Longrightarrow> y \<in> set b64_chars \<Longrightarrow> z \<in> set b64_chars
   \<Longrightarrow> padded_tail [x, y, z, CHR ''='']"
  unfolding padded_tail_def by blast

lemma encoded_shapeI:
  "s = d @ t \<Longrightarrow> set d \<subseteq> set b64_chars \<Longrightarrow> length d mod 4 = 0 \<Longrightarrow> padded_tail t
   \<Longrightarrow> encoded_shape s"
  unfolding encoded_shape_def by (intro exI[of _ d] exI[of _ t] conjI)

lemma encoded_shape_tail: "padded_tail t \<Longrightarrow> encoded_shape t"
  by (rule encoded_shapeI[of t "[]" t]) simp_all

lemma encoded_shape_group:
  assumes "encoded_shape s" "x1 \<in> set b64_chars" "x2 \<in> set b64_chars" "x3 \<in> set b64_chars"
    "x4 \<in> set b64_chars"
  shows "encoded_shape ([x1, x2, x3, x4] @ s)"
proof -
  from assms(1) obtain d t where dt: "s = d @ t" "set d \<subseteq> set b64_chars"
    "length d mod 4 = 0" "padded_tail t"
    unfolding encoded_shape_def by auto
  show ?thesis
  proof (rule encoded_shapeI[of _ "[x1, x2, x3, x4] @ d" t])
    show "[x1, x2, x3, x4] @ s = ([x1, x2, x3, x4] @ d) @ t" using dt(1) by simp
    show "set ([x1, x2, x3, x4] @ d) \<subseteq> set b64_chars" using dt(2) assms(2-5) by simp
    show "length ([x1, x2, x3, x4] @ d) mod 4 = 0" using dt(3) by (simp add: mod_Suc)
    show "padded_tail t" by (rule dt(4))
  qed
qed

lemma base64_encode_shape: "encoded_shape (base64_encode bs)"
proof (induction bs rule: base64_encode.induct)
  case 1
  have "padded_tail []" by (simp add: padded_tail_def)
  then show ?case by (simp add: encoded_shape_tail)
next
  case (2 a)
  have a: "unat a < 256" by (rule unat_byte_less)
  have "padded_tail [b64_char (unat a div 4), b64_char ((unat a mod 4) * 16), CHR ''='', CHR ''='']"
    by (rule padded_tail2; rule b64_char_in; rule triple_bounds[OF a a a])
  then show ?case by (simp add: encoded_shape_tail)
next
  case (3 a b)
  have a: "unat a < 256" and b: "unat b < 256" by (rule unat_byte_less)+
  have "padded_tail [b64_char (unat a div 4), b64_char ((unat a mod 4) * 16 + unat b div 16),
      b64_char ((unat b mod 16) * 4), CHR ''='']"
    by (rule padded_tail1; rule b64_char_in; rule triple_bounds[OF a b b])
  then show ?case by (simp add: encoded_shape_tail)
next
  case (4 a b c rest)
  have a: "unat a < 256" and b: "unat b < 256" and c: "unat c < 256" by (rule unat_byte_less)+
  have "encoded_shape ([b64_char (unat a div 4), b64_char ((unat a mod 4) * 16 + unat b div 16),
      b64_char ((unat b mod 16) * 4 + unat c div 64), b64_char (unat c mod 64)]
      @ base64_encode rest)"
    by (rule encoded_shape_group[OF "4.IH"]; rule b64_char_in; rule triple_bounds[OF a b c])
  then show ?case by simp
qed

lemma multiple_of_4_below_100: "(n::nat) mod 4 = 0 \<Longrightarrow> \<not> 100 \<le> n \<Longrightarrow> n \<le> 96"
  by arith

lemma atob_prefix_of_padded:
  assumes "set d \<subseteq> set b64_chars" "length d mod 4 = 0" "padded_tail t"
  shows "atob (take 100 (d @ t)) \<noteq> None"
proof (cases "100 \<le> length d")
  case True
  have e: "take 100 (d @ t) = take 100 d" using True by simp
  have s: "set (take 100 d) \<subseteq> set b64_chars"
    using assms(1) set_take_subset[of 100 d] by blast
  have "length (take 100 d) = 100" using True by simp
  then have l: "length (take 100 d) mod 4 \<noteq> 1" by simp
  show ?thesis unfolding e using s l by (rule atob_alphabet)
next
  case False
  have "length d \<le> 96" using assms(2) False by (rule multiple_of_4_below_100)
  moreover have "length t \<le> 4" using assms(3) by (auto simp: padded_tail_def)
  ultimately have whole: "take 100 (d @ t) = d @ t" by simp
  from assms(3) consider "t = []"
    | x y where "x \<in> set b64_chars" "y \<in> set b64_chars" "t = [x, y, CHR ''='', CHR ''='']"
    | x y z where "x \<in> set b64_chars" "y \<in> set b64_chars" "z \<in> set b64_chars"
        "t = [x, y, z, CHR ''='']"
    unfolding padded_tail_def by blast
  then show ?thesis
  proof cases
    case 1
    have "length d mod 4 \<noteq> 1" using assms(2) by simp
    then have "atob d \<noteq> None" using atob_alphabet[OF assms(1)] by simp
    moreover have "take 100 (d @ t) = d" using whole 1 by simp
    ultimately show ?thesis by simp
  next
    case 2
    show ?thesis unfolding whole unfolding 2(3) using assms(1,2) 2(1,2) by (rule atob_padded2)
  next
    case 3
    show ?thesis unfolding whole unfolding 3(4) using assms(1,2) 3(1,2,3) by (rule atob_padded1)
  qed
qed

lemma atob_prefix_of_encoding: "atob (take 100 (base64_encode bs)) \<noteq> None"
proof -
  obtain d t where "base64_encode bs = d @ t" "set d \<subseteq> set b64_chars" "length d mod 4 = 0"
    "padded_tail t"
    using base64_encode_shape[of bs] unfolding encoded_shape_def by auto
  then show ?thesis using atob_prefix_of_padded[of d t] by simp
qed

lemma colon_not_alphabet: "CHR '':'' \<notin> set b64_chars"
  by (simp add: b64_chars_def)

lemma encoding_no_colon: "CHR '':'' \<notin> set (base64_encode bs)"
proof -
  obtain d t where dt: "base64_encode bs = d @ t" "set d \<subseteq> set b64_chars" "padded_tail t"
    using base64_encode_shape[of bs] unfolding encoded_shape_def by blast
  have "CHR '':'' \<notin> set d" using dt(2) colon_not_alphabet by blast
  moreover have "CHR '':'' \<notin> set t" using dt(3) colon_not_alphabet by (auto simp: padded_tail_def)
  ultimately show ?thesis using dt(1) by simp
qed

lemma encoding_not_data_url: "\<not> prefix ''data:'' (base64_encode bs)"
proof
  assume "prefix ''data:'' (base64_encode bs)"
  then have "set ''data:'' \<subseteq> set (base64_encode bs)" by (rule set_mono_prefix)
  then show False using encoding_no_colon[of bs] by simp
qed

lemma encoding_nonempty: "bs \<noteq> [] \<Longrightarrow> base64_encode bs \<noteq> []"
  by (cases bs rule: base64_encode.cases) simp_all

section \<open>The handlers, step by step\<close>

text \<open>
  What each handler returns and how it leaves the world, path by path: a call that
  succeeds, a call stopped by a check, a call that reaches curl. The lemmas on
  \<^const>\<open>split_base64\<close> and \<^const>\<open>match_data_url\<close> say that the model of the regular expression
  finds a match exactly in texts of the form \<^verbatim>\<open>data:<m>;base64,<p>\<close> with both parts
  non-empty.
\<close>

lemmas upload_file_defs =
  handleUploadFile_def uploadFile_try_def spawn_def randomUUID_def exists_file_def
  uploadCommand_def McpError_def public_prefix_def

lemma falsy_cases: "\<not> falsy x \<Longrightarrow> \<exists>c cs. x = Some (c # cs)"
  by (cases x) (auto simp: neq_Nil_conv)

lemma handleUploadFile_success:
  assumes "handleUploadFile e args w = (Inr r, w')"
  shows "\<exists>p out err. file_path args = Some p \<and> p \<noteq> [] \<and> fs w p \<noteq> None
           \<and> curl e (length (spawned w)) = Exited 0 out err
           \<and> r = \<lparr>success = True,
                   r_file_path = p,
                   folder_id = uuid_source e (uuid_count w),
                   original_filename = basename p,
                   r_content_type =
                     (if falsy (content_type args) then detectContentType p
                      else the (content_type args)),
                   remote_path = uuid_source e (uuid_count w) @ ''/'' @ basename p,
                   url = ''https://s3.reily.app/public/'' @ uuid_source e (uuid_count w) @ ''/''
                         @ basename p,
                   r_message = ''File uploaded successfully to https://s3.reily.app/public/''
                         @ uuid_source e (uuid_count w) @ ''/'' @ basename p\<rparr>
           \<and> w' = w\<lparr>uuid_count := Suc (uuid_count w),
                     spawned := spawned w @
                       [\<lparr>command = uploadCommand (remote_path r) p (r_content_type r),
                         body = fs w p\<rparr>]\<rparr>"
proof (cases "file_path args")
  case None
  then show ?thesis using assms by (simp add: handleUploadFile_def)
next
  case (Some p)
  show ?thesis
  proof (cases "curl e (length (spawned w))")
    case (SpawnError m)
    then show ?thesis using assms Some
      by (auto simp: upload_file_defs Let_def split: if_splits)
  next
    case (Exited c out err)
    then show ?thesis using assms Some
      by (auto simp: upload_file_defs Let_def split: if_splits)
  qed
qed

lemma handleUploadFile_uuid_count:
  "uuid_count w \<le> uuid_count (snd (handleUploadFile e args w))"
  by (auto simp: upload_file_defs Let_def split: if_splits proc_result.splits)

lemma cleanup_uuid_count: "uuid_count (cleanup e p w) = uuid_count w"
  by (auto simp: cleanup_def Bun_delete_def split: option.splits sum.splits)

lemma handleUploadFileContent_uuid_count:
  "uuid_count w \<le> uuid_count (snd (handleUploadFileContent e args w))"
  by (auto simp: handleUploadFileContent_def uploadFileContent_try_def spawn_def randomUUID_def
      Bun_write_def Let_def cleanup_uuid_count
      split: if_splits proc_result.splits prod.splits option.splits sum.splits)

lemma split_base64_Some:
  "split_base64 acc s = Some (m, p) \<Longrightarrow> acc @ s = m @ '';base64,'' @ p \<and> m \<noteq> [] \<and> p \<noteq> []"
proof (induction acc s rule: split_base64.induct)
  case (1 acc)
  then show ?case by simp
next
  case (2 acc c cs)
  show ?case
  proof (cases "acc \<noteq> [] \<and> prefix '';base64,'' (c # cs) \<and> drop 8 (c # cs) \<noteq> []")
    case True
    then have mp: "m = acc" "p = drop 8 (c # cs)" using "2.prems" by simp_all
    from True obtain zs where "c # cs = '';base64,'' @ zs" unfolding prefix_def by blast
    then have "c # cs = '';base64,'' @ drop 8 (c # cs)" by simp
    then show ?thesis using True mp by simp
  next
    case False
    then have "split_base64 (acc @ [c]) cs = Some (m, p)" using "2.prems" by (simp split: if_splits)
    then show ?thesis using "2.IH"[OF False] by simp
  qed
qed

lemma match_data_url_Some:
  assumes "match_data_url c = Some (m, p)"
  shows "c = ''data:'' @ m @ '';base64,'' @ p \<and> m \<noteq> [] \<and> p \<noteq> []"
proof -
  from assms have pre: "prefix ''data:'' c" and sp: "split_base64 [] (drop 5 c) = Some (m, p)"
    by (auto simp: match_data_url_def split: if_splits)
  from pre obtain zs where "c = ''data:'' @ zs" unfolding prefix_def by blast
  then have "c = ''data:'' @ drop 5 c" by simp
  moreover have "drop 5 c = m @ '';base64,'' @ p \<and> m \<noteq> [] \<and> p \<noteq> []"
    using split_base64_Some[OF sp] by simp
  ultimately show ?thesis by simp
qed

lemma split_base64_finds:
  assumes "acc @ u \<noteq> []" "p \<noteq> []"
  shows "split_base64 acc (u @ '';base64,'' @ p) \<noteq> None"
  using assms
proof (induction u arbitrary: acc)
  case Nil
  then show ?case by simp
next
  case (Cons c u)
  have "split_base64 (acc @ [c]) (u @ '';base64,'' @ p) \<noteq> None"
    using Cons.IH[of "acc @ [c]"] Cons.prems(2) by simp
  then show ?case by simp
qed

lemma match_data_url_finds:
  assumes "m \<noteq> []" "p \<noteq> []" "\<not> list_ex line_terminator (m @ p)"
  shows "match_data_url (''data:'' @ m @ '';base64,'' @ p) \<noteq> None"
proof -
  have "\<not> list_ex line_terminator (m @ '';base64,'' @ p)"
    using assms(3) by (simp add: list_ex_iff line_terminator_def)
  then show ?thesis
    using split_base64_finds[of "[]" m p] assms(1,2)
    by (simp add: match_data_url_def)
qed

lemma mime_after_strip:
  "detectedMimeType (fst (strip_data_url mt c)) f = mime_precedence mt c f"
proof (cases "falsy mt")
  case True
  then have "mt = None \<or> mt = Some []" by (cases mt) auto
  then show ?thesis
    using match_data_url_Some[of c]
    by (auto simp: strip_data_url_def mime_precedence_def detectedMimeType_def
        Let_def split: option.splits list.splits)
next
  case False
  then obtain x xs where "mt = Some (x # xs)" using falsy_cases by blast
  then show ?thesis
    by (auto simp: strip_data_url_def mime_precedence_def detectedMimeType_def
        split: option.splits)
qed

lemma handleUploadFileContent_validated:
  assumes "content args = Some c" "c \<noteq> []" "filename args = Some f" "f \<noteq> []"
    and "atob (take 100 (snd (strip_data_url (mime_type args) c))) \<noteq> None"
  shows "handleUploadFileContent e args w =
    (let folderId = uuid_source e (uuid_count w);
         buffer = Buffer_from_base64 (snd (strip_data_url (mime_type args) c));
         tmp = ''/tmp/'' @ folderId @ ''_'' @ basename f;
         rp = folderId @ ''/'' @ basename f;
         dmt = mime_precedence (mime_type args) c f;
         w1 = w\<lparr>uuid_count := Suc (uuid_count w)\<rparr>
     in case write_error e tmp of
          Some m \<Rightarrow> (Inl (McpError InternalError (''Failed to upload file content: '' @ m)), w1)
        | None \<Rightarrow>
           (let w2 = w1\<lparr>fs := (fs w)(tmp \<mapsto> buffer)\<rparr>;
                w3 = w2\<lparr>spawned := spawned w @
                          [\<lparr>command = uploadCommand rp tmp dmt, body = Some buffer\<rparr>]\<rparr>
            in case curl e (length (spawned w)) of
                 SpawnError m \<Rightarrow>
                   (Inl (McpError InternalError (''Failed to upload file content: '' @ m)), w2)
               | Exited exitCode out err \<Rightarrow>
                   (if exitCode \<noteq> 0
                    then Inl (McpError InternalError
                           (''Failed to upload file content: Upload failed: '' @ err))
                    else Inr \<lparr>c_success = True,
                              c_filename = basename f,
                              c_folder_id = folderId,
                              c_mime_type = dmt,
                              c_remote_path = rp,
                              c_url = public_prefix @ rp,
                              content_size = length buffer,
                              c_message = ''File content uploaded successfully to ''
                                @ public_prefix @ rp\<rparr>,
                    cleanup e tmp w3)))"
proof -
  obtain mt b64 where s: "strip_data_url (mime_type args) c = (mt, b64)"
    by (cases "strip_data_url (mime_type args) c")
  have m: "detectedMimeType mt f = mime_precedence (mime_type args) c f"
    using mime_after_strip[of "mime_type args" c f] s by simp
  obtain x where a: "atob (take 100 b64) = Some x" using assms(5) s by auto
  show ?thesis
    using assms(1-4) s a m
    by (simp add: handleUploadFileContent_def uploadFileContent_try_def randomUUID_def
        Bun_write_def spawn_def Let_def McpError_def
        split: option.splits proc_result.splits)
qed

lemma handleUploadFile_invalid:
  assumes "\<not> file_call_valid w a"
  shows "spawned (snd (handleUploadFile e a w)) = spawned w"
  using assms
  by (cases "file_path a") (auto simp: file_call_valid_def upload_file_defs)

lemma handleUploadFile_valid:
  assumes "file_path a = Some p" "p \<noteq> []" "fs w p \<noteq> None"
  shows "handleUploadFile e a w =
    (let folderId = uuid_source e (uuid_count w);
         rp = folderId @ ''/'' @ basename p;
         ct = (if falsy (content_type a) then detectContentType p else the (content_type a));
         w1 = w\<lparr>uuid_count := Suc (uuid_count w)\<rparr>;
         w2 = w1\<lparr>spawned := spawned w @ [\<lparr>command = uploadCommand rp p ct, body = fs w p\<rparr>]\<rparr>
     in case curl e (length (spawned w)) of
          SpawnError m \<Rightarrow> (Inl (McpError InternalError (''Failed to upload file: '' @ m)), w1)
        | Exited exitCode out err \<Rightarrow>
            (if exitCode \<noteq> 0
             then Inl (McpError InternalError (''Failed to upload file: Upload failed: '' @ err))
             else Inr \<lparr>success = True,
                       r_file_path = p,
                       folder_id = folderId,
                       original_filename = basename p,
                       r_content_type = ct,
                       remote_path = rp,
                       url = public_prefix @ rp,
                       r_message = ''File uploaded successfully to '' @ public_prefix @ rp\<rparr>,
             w2))"
  using assms
  by (simp add: handleUploadFile_def uploadFile_try_def spawn_def randomUUID_def exists_file_def
      Let_def McpError_def split: proc_result.splits)

lemma handleUploadFileContent_unchecked:
  assumes "\<not> prefix_check_passes a"
  shows "snd (handleUploadFileContent e a w) = w"
proof (cases "falsy (content a) \<or> falsy (filename a)")
  case True
  then show ?thesis by (auto simp: handleUploadFileContent_def)
next
  case False
  then obtain c f where cf: "content a = Some c" "c \<noteq> []" "filename a = Some f" "f \<noteq> []"
    by (cases "content a"; cases "filename a") auto
  then have "atob (take 100 (snd (strip_data_url (mime_type a) c))) = None"
    using assms by (simp add: prefix_check_passes_def)
  then show ?thesis using cf
    by (auto simp: handleUploadFileContent_def uploadFileContent_try_def split: prod.splits)
qed

lemma prefix_check_passesD:
  assumes "prefix_check_passes a"
  shows "\<exists>c f. content a = Some c \<and> c \<noteq> [] \<and> filename a = Some f \<and> f \<noteq> []
     \<and> atob (take 100 (snd (strip_data_url (mime_type a) c))) \<noteq> None"
  using assms
  by (cases "content a"; cases "filename a") (auto simp: prefix_check_passes_def)

lemma cleanup_alt:
  "fs w p \<noteq> None \<Longrightarrow> cleanup e p w =
     (case delete_error e p of
        None \<Rightarrow> w\<lparr>fs := (fs w)(p := None)\<rparr>
      | Some m \<Rightarrow> w\<lparr>console := console w @ [''Warning: Failed to clean up temporary file: '' @ m]\<rparr>)"
  by (auto simp: cleanup_def Bun_delete_def split: option.splits)

lemma handleUploadFileContent_exited:
  assumes "content_call_staged e w a" "filename a = Some f" "content a = Some c"
    and "curl e (length (spawned w)) = Exited exitCode out err"
  shows "handleUploadFileContent e a w =
    (let folderId = uuid_source e (uuid_count w);
         buffer = Buffer_from_base64 (snd (strip_data_url (mime_type a) c));
         tmp = temp_path e w f;
         rp = folderId @ ''/'' @ basename f;
         dmt = mime_precedence (mime_type a) c f
     in (if exitCode \<noteq> 0
         then Inl (McpError InternalError
                (''Failed to upload file content: Upload failed: '' @ err))
         else Inr \<lparr>c_success = True,
                   c_filename = basename f,
                   c_folder_id = folderId,
                   c_mime_type = dmt,
                   c_remote_path = rp,
                   c_url = public_prefix @ rp,
                   content_size = length buffer,
                   c_message = ''File content uploaded successfully to ''
                     @ public_prefix @ rp\<rparr>,
         cleanup e tmp
           (w\<lparr>uuid_count := Suc (uuid_count w),
              fs := (fs w)(tmp \<mapsto> buffer),
              spawned := spawned w @
                [\<lparr>command = uploadCommand rp tmp dmt, body = Some buffer\<rparr>]\<rparr>)))"
proof -
  from assms(1,2) have p: "prefix_check_passes a" and wr: "write_error e (temp_path e w f) = None"
    by (simp_all add: content_call_staged_def)
  from prefix_check_passesD[OF p] assms(2,3)
  have v: "c \<noteq> []" "f \<noteq> []" "atob (take 100 (snd (strip_data_url (mime_type a) c))) \<noteq> None"
    by auto
  show ?thesis
    using handleUploadFileContent_validated[OF assms(3) v(1) assms(2) v(2) v(3), of e w] wr assms(4)
    by (simp add: temp_path_def Let_def)
qed

lemma cleanup_spawned: "spawned (cleanup e p w) = spawned w"
  by (auto simp: cleanup_def Bun_delete_def split: option.splits sum.splits)

lemma staged_spawned:
  assumes "content_call_staged e w a" "filename a = Some f" "content a = Some c"
    and "curl e (length (spawned w)) = Exited exitCode out err"
    and "handleUploadFileContent e a w = (r, w')"
  shows "spawned w' = spawned w @
           [\<lparr>command = uploadCommand (uuid_source e (uuid_count w) @ ''/'' @ basename f)
                         (temp_path e w f) (mime_precedence (mime_type a) c f),
             body = Some (Buffer_from_base64 (snd (strip_data_url (mime_type a) c)))\<rparr>]"
  using handleUploadFileContent_exited[OF assms(1-4)] assms(5)
  by (auto simp: Let_def cleanup_spawned)

lemma handleUploadFileContent_success:
  assumes "handleUploadFileContent e a w = (Inr r, w')"
  shows "\<exists>c f out err. content a = Some c \<and> filename a = Some f \<and> content_call_staged e w a
           \<and> curl e (length (spawned w)) = Exited 0 out err"
proof -
  have p: "prefix_check_passes a"
  proof (rule ccontr)
    assume n: "\<not> prefix_check_passes a"
    show False
    proof (cases "falsy (content a) \<or> falsy (filename a)")
      case True
      then show ?thesis using assms by (auto simp: handleUploadFileContent_def)
    next
      case False
      then obtain c f where cf: "content a = Some c" "c \<noteq> []" "filename a = Some f" "f \<noteq> []"
        by (cases "content a"; cases "filename a") auto
      then have "atob (take 100 (snd (strip_data_url (mime_type a) c))) = None"
        using n by (simp add: prefix_check_passes_def)
      then show ?thesis using cf assms
        by (auto simp: handleUploadFileContent_def uploadFileContent_try_def split: prod.splits)
    qed
  qed
  from prefix_check_passesD[OF p] obtain c f where
    cf: "content a = Some c" "c \<noteq> []" "filename a = Some f" "f \<noteq> []"
      "atob (take 100 (snd (strip_data_url (mime_type a) c))) \<noteq> None"
    by blast
  note run = handleUploadFileContent_validated[OF cf, of e w]
  have wr: "write_error e (temp_path e w f) = None"
    using run assms by (auto simp: Let_def temp_path_def split: option.splits)
  then have st: "content_call_staged e w a" using p cf(3) by (simp add: content_call_staged_def)
  have "\<exists>out err. curl e (length (spawned w)) = Exited 0 out err"
    using run assms wr
    by (auto simp: Let_def temp_path_def split: option.splits proc_result.splits if_splits)
  then show ?thesis using cf st by blast
qed

lemma strip_data_url_plain: "\<not> prefix ''data:'' c \<Longrightarrow> strip_data_url mt c = (mt, c)"
  by (simp add: strip_data_url_def)

lemma Buffer_from_base64_encode: "Buffer_from_base64 (base64_encode bs) = bs"
  by (simp add: Buffer_from_base64_def sextets_encode_round_trip)

lemma handleUploadFileContent_unstaged:
  assumes "\<not> content_call_staged e w a"
  shows "spawned (snd (handleUploadFileContent e a w)) = spawned w"
proof (cases "prefix_check_passes a")
  case False
  then show ?thesis using handleUploadFileContent_unchecked by simp
next
  case True
  from prefix_check_passesD[OF True] obtain c f where
    cf: "content a = Some c" "c \<noteq> []" "filename a = Some f" "f \<noteq> []"
      "atob (take 100 (snd (strip_data_url (mime_type a) c))) \<noteq> None"
    by blast
  then have "write_error e (temp_path e w f) \<noteq> None"
    using assms True by (simp add: content_call_staged_def)
  then show ?thesis
    using handleUploadFileContent_validated[OF cf, of e w]
    by (auto simp: Let_def temp_path_def)
qed

lemma handleUploadFileContent_staged_spawns:
  assumes "content_call_staged e w a"
  shows "if curl_starts e w
         then \<exists>t. spawned (snd (handleUploadFileContent e a w)) = spawned w @ [t]
         else spawned (snd (handleUploadFileContent e a w)) = spawned w"
proof -
  from assms obtain f where f: "filename a = Some f" "prefix_check_passes a"
    "write_error e (temp_path e w f) = None"
    by (cases "filename a") (auto simp: content_call_staged_def)
  from prefix_check_passesD[OF f(2)] f(1) obtain c where
    cf: "content a = Some c" "c \<noteq> []" "f \<noteq> []"
      "atob (take 100 (snd (strip_data_url (mime_type a) c))) \<noteq> None"
    by auto
  show ?thesis
    using handleUploadFileContent_validated[OF cf(1,2) f(1) cf(3,4), of e w] f(3)
    by (auto simp: Let_def temp_path_def cleanup_spawned curl_starts_def
        split: proc_result.splits)
qed

lemma handleUploadFile_valid_spawns:
  assumes "file_call_valid w a"
  shows "if curl_starts e w
         then \<exists>t. spawned (snd (handleUploadFile e a w)) = spawned w @ [t]
         else spawned (snd (handleUploadFile e a w)) = spawned w"
proof -
  from assms obtain p where p: "file_path a = Some p" "p \<noteq> []" "fs w p \<noteq> None"
    by (cases "file_path a") (auto simp: file_call_valid_def exists_file_def)
  show ?thesis
    using handleUploadFile_valid[OF p, of e]
    by (auto simp: Let_def curl_starts_def split: proc_result.splits)
qed

lemma alphabet_prefix_accepted:
  assumes "length p = 100" "set p \<subseteq> set b64_chars" "f \<noteq> []"
  shows "prefix_check_passes \<lparr>content = Some (p @ g), filename = Some f, mime_type = mt\<rparr>"
proof -
  have "\<not> prefix ''data:'' (p @ g)"
  proof
    assume "prefix ''data:'' (p @ g)"
    then obtain zs where z: "p @ g = ''data:'' @ zs" unfolding prefix_def by blast
    have "take 5 (p @ g) = take 5 p" using assms(1) by simp
    moreover have "take 5 (''data:'' @ zs) = ''data:''" by simp
    ultimately have "take 5 p = ''data:''" using z by metis
    then have "CHR '':'' \<in> set (take 5 p)" by simp
    then have "CHR '':'' \<in> set p" by (rule in_set_takeD)
    then show False using assms(2) colon_not_alphabet by blast
  qed
  then have st: "strip_data_url mt (p @ g) = (mt, p @ g)" by (rule strip_data_url_plain)
  have "length p mod 4 \<noteq> 1" using assms(1) by simp
  then have "atob p \<noteq> None" using assms(2) atob_alphabet by blast
  moreover have "p \<noteq> []" using assms(1) by auto
  ultimately show ?thesis
    using assms(1,3) by (simp add: prefix_check_passes_def st)
qed

section \<open>The concrete calls\<close>

text \<open>The handlers evaluated on the calls and environments defined above.\<close>

lemma example_uuids_distinct: "inj (uuid_source example_env)"
  by (simp add: example_env_def inj_def)

lemma hello_staged:
  "content_call_staged example_env example_world hello_call"
  "content_call_staged undeletable_env example_world hello_call"
  "content_call_staged rejecting_env example_world hello_call"
  by code_simp+

lemma hello_fields:
  "filename hello_call = Some ''hello.txt''" "content hello_call = Some ''aGVsbG8=''"
  "mime_type hello_call = None"
  by (simp_all add: hello_call_def)

lemma hello_temp_path:
  "temp_path example_env example_world ''hello.txt'' = hello_temp"
  "temp_path undeletable_env example_world ''hello.txt'' = hello_temp"
  "temp_path rejecting_env example_world ''hello.txt'' = hello_temp"
  by code_simp+

lemma hello_buffer:
  "Buffer_from_base64 (snd (strip_data_url None ''aGVsbG8='')) = [0x68, 0x65, 0x6C, 0x6C, 0x6F]"
  by code_simp

lemma pair_run: "f = (fst f, snd f)"
  by simp

lemma png_run: "fst (handleUploadFile example_env png_call example_world) = Inr png_result"
  by code_simp

lemma hello_run: "fst (handleUploadFileContent example_env hello_call example_world) = Inr hello_result"
  by code_simp

lemma png_spawned:
  "spawned (snd (handleUploadFile example_env png_call example_world)) =
     [\<lparr>command = [''curl'', ''-X'', ''PUT'',
                   ''https://s3.reily.app/public/6f1c2a9e-0b7d-4c3a-9e55-1d2e3f4a5b6c/a.png'',
                   ''-T'', ''/tmp/a.png'', ''-H'', ''Content-Type: image/png'',
                   ''--silent'', ''--fail''],
       body = Some [0x89, 0x50, 0x4E, 0x47]\<rparr>]"
  by code_simp

lemma hello_spawned:
  "spawned (snd (handleUploadFileContent example_env hello_call example_world)) =
     [\<lparr>command = [''curl'', ''-X'', ''PUT'',
                   ''https://s3.reily.app/public/6f1c2a9e-0b7d-4c3a-9e55-1d2e3f4a5b6c/hello.txt'',
                   ''-T'', ''/tmp/6f1c2a9e-0b7d-4c3a-9e55-1d2e3f4a5b6c_hello.txt'',
                   ''-H'', ''Content-Type: text/plain'', ''--silent'', ''--fail''],
       body = Some [0x68, 0x65, 0x6C, 0x6C, 0x6F]\<rparr>]"
  by code_simp

lemma bin_lookups:
  "map_of mimeMap (toLowerCase (extname ''/tmp/data.bin'')) = None"
  "map_of contentMimeMap (toLowerCase (extname ''data.bin'')) = None"
  "extname ''/tmp/data.bin'' = extname ''/srv/OTHER.bin''"
  "extname ''data.bin'' = extname ''/srv/OTHER.bin''"
  "match_data_url ''AAE='' = None"
  by code_simp+

lemma bin_runs:
  "fst (handleUploadFile example_env bin_call example_world)
     = Inr \<lparr>success = True, r_file_path = ''/tmp/data.bin'',
            folder_id = ''6f1c2a9e-0b7d-4c3a-9e55-1d2e3f4a5b6c'', original_filename = ''data.bin'',
            r_content_type = ''image/jpeg'',
            remote_path = ''6f1c2a9e-0b7d-4c3a-9e55-1d2e3f4a5b6c/data.bin'',
            url = ''https://s3.reily.app/public/6f1c2a9e-0b7d-4c3a-9e55-1d2e3f4a5b6c/data.bin'',
            r_message = ''File uploaded successfully to https://s3.reily.app/public/6f1c2a9e-0b7d-4c3a-9e55-1d2e3f4a5b6c/data.bin''\<rparr>"
  "fst (handleUploadFileContent example_env bin_content_call example_world)
     = Inr \<lparr>c_success = True, c_filename = ''data.bin'',
            c_folder_id = ''6f1c2a9e-0b7d-4c3a-9e55-1d2e3f4a5b6c'',
            c_mime_type = ''application/octet-stream'',
            c_remote_path = ''6f1c2a9e-0b7d-4c3a-9e55-1d2e3f4a5b6c/data.bin'',
            c_url = ''https://s3.reily.app/public/6f1c2a9e-0b7d-4c3a-9e55-1d2e3f4a5b6c/data.bin'',
            content_size = 2,
            c_message = ''File content uploaded successfully to https://s3.reily.app/public/6f1c2a9e-0b7d-4c3a-9e55-1d2e3f4a5b6c/data.bin''\<rparr>"
  by code_simp+

lemma precedence_levels:
  "mime_precedence (Some ''text/csv'') ''data:image/png;base64,aGVsbG8='' ''hello.txt'' = ''text/csv''"
  "mime_precedence None ''data:image/png;base64,aGVsbG8='' ''hello.txt'' = ''image/png''"
  "mime_precedence None ''aGVsbG8='' ''hello.txt'' = ''text/plain''"
  "mime_precedence None ''AAE='' ''data.bin'' = ''application/octet-stream''"
  by code_simp+

lemma precedence_runs:
  "\<exists>res. fst (handleUploadFileContent example_env explicit_call example_world) = Inr res"
  "\<exists>res. fst (handleUploadFileContent example_env data_url_call example_world) = Inr res"
  "\<exists>res. fst (handleUploadFileContent example_env hello_call example_world) = Inr res"
  "\<exists>res. fst (handleUploadFileContent example_env bin_content_call example_world) = Inr res"
proof -
  have "isl (fst (handleUploadFileContent example_env explicit_call example_world)) = False"
    "isl (fst (handleUploadFileContent example_env data_url_call example_world)) = False"
    "isl (fst (handleUploadFileContent example_env hello_call example_world)) = False"
    "isl (fst (handleUploadFileContent example_env bin_content_call example_world)) = False"
    by code_simp+
  then show
    "\<exists>res. fst (handleUploadFileContent example_env explicit_call example_world) = Inr res"
    "\<exists>res. fst (handleUploadFileContent example_env data_url_call example_world) = Inr res"
    "\<exists>res. fst (handleUploadFileContent example_env hello_call example_world) = Inr res"
    "\<exists>res. fst (handleUploadFileContent example_env bin_content_call example_world) = Inr res"
    by (metis sum.collapse(2))+
qed

lemma hello_encoding: "base64_encode [0x68, 0x65, 0x6C, 0x6C, 0x6F] = ''aGVsbG8=''"
  by code_simp

lemma example_validity:
  "file_call_valid example_world png_call"
  "file_call_valid example_world missing_call = False"
  "content_call_staged rejecting_env example_world hello_call"
  "content_call_staged rejecting_env example_world not_base64_call = False"
  by code_simp+

lemma late_garbage_parts:
  "length (replicate 100 CHR ''A'') = 100"
  "set (replicate 100 CHR ''A'') \<subseteq> set b64_chars"
  by (simp_all add: b64_chars_def)

section \<open>C1: a path that names no file\<close>

text \<open>
  C1 says the call fails with \<^verbatim>\<open>InvalidParams\<close>. The \<^verbatim>\<open>McpError(InvalidParams, ...)\<close> is
  thrown inside the \<^verbatim>\<open>try\<close> block, whose \<^verbatim>\<open>catch\<close> wraps everything in an
  \<^verbatim>\<open>InternalError\<close>: for every non-empty path that names no file, the call fails with code
  \<^verbatim>\<open>InternalError\<close>; the message contains the path, and the world (the list of spawned
  processes included) is unchanged.
\<close>

theorem upload_file_not_found:
  assumes "file_path args = Some p" "p \<noteq> []" "\<not> exists_file w p"
  shows "handleUploadFile e args w =
    (Inl \<lparr>code = InternalError,
          message = ''MCP error -32603: Failed to upload file: MCP error -32602: File not found: '' @ p\<rparr>,
     w)"
  using assms by (simp add: handleUploadFile_def uploadFile_try_def McpError_def)

theorem upload_file_not_found_witness:
  "handleUploadFile example_env missing_call example_world =
    (Inl \<lparr>code = InternalError,
          message = ''MCP error -32603: Failed to upload file: MCP error -32602: File not found: /tmp/missing.txt''\<rparr>,
     example_world)"
proof -
  have "file_path missing_call = Some ''/tmp/missing.txt''" by (simp add: missing_call_def)
  moreover have "''/tmp/missing.txt'' \<noteq> []" by simp
  moreover have "\<not> exists_file example_world ''/tmp/missing.txt''"
    by (simp add: exists_file_def example_world_def)
  ultimately show ?thesis
    using upload_file_not_found[of missing_call "''/tmp/missing.txt''" example_world example_env]
    by simp
qed

section \<open>C2: content that is not base64\<close>

text \<open>
  C2 says the call fails with \<^verbatim>\<open>InvalidParams\<close>. As in C1 the error is thrown inside the
  \<^verbatim>\<open>try\<close> block and wrapped: whenever \<^verbatim>\<open>atob\<close> rejects the first 100 characters of the
  content (after the removal of a data-URL prefix), the call fails with code
  \<^verbatim>\<open>InternalError\<close>, the message says that the base64 content is invalid, and the world
  is unchanged: no temporary file is written.
\<close>

theorem upload_file_content_invalid_base64:
  assumes "content args = Some c" "c \<noteq> []" "filename args = Some f" "f \<noteq> []"
    and "atob (take 100 (snd (strip_data_url (mime_type args) c))) = None"
  shows "handleUploadFileContent e args w =
    (Inl \<lparr>code = InternalError,
          message = ''MCP error -32603: Failed to upload file content: MCP error -32602: Invalid base64 content provided''\<rparr>,
     w)"
  using assms
  by (auto simp: handleUploadFileContent_def uploadFileContent_try_def McpError_def
      split: prod.splits)

theorem upload_file_content_invalid_base64_witness:
  "handleUploadFileContent example_env not_base64_call example_world =
    (Inl \<lparr>code = InternalError,
          message = ''MCP error -32603: Failed to upload file content: MCP error -32602: Invalid base64 content provided''\<rparr>,
     example_world)"
proof -
  have "content not_base64_call = Some ''!!!not-base64!!!''"
    and "filename not_base64_call = Some ''a.txt''"
    by (simp_all add: not_base64_call_def)
  moreover have "atob (take 100 (snd (strip_data_url (mime_type not_base64_call) ''!!!not-base64!!!''))) = None"
    by code_simp
  ultimately show ?thesis
    using upload_file_content_invalid_base64[of not_base64_call "''!!!not-base64!!!''" "''a.txt''"
        example_env example_world]
    by simp
qed

section \<open>C3: removal of the staged file\<close>

text \<open>
  Counterexample to C3 as stated ("after any such call the staged temporary file no longer
  exists on disk"): when \<^verbatim>\<open>delete\<close> throws, the call reaches the staging step, the
  transfer succeeds, and the staged file with the decoded bytes is still on disk after
  the call.
\<close>

theorem staged_file_outlives_call_counterexample:
  "content_call_staged undeletable_env example_world hello_call
   \<and> fs (snd (handleUploadFileContent undeletable_env hello_call example_world)) hello_temp
       = Some [0x68, 0x65, 0x6C, 0x6C, 0x6F]"
  by code_simp

text \<open>
  C3, amended: for every call of \<^verbatim>\<open>upload_file_content\<close> that reaches the staging step
  and whose curl process runs to its exit, with whatever exit code, the transfer is made
  while the staged file holds the decoded bytes, and the deletion is attempted afterwards:
  if \<^verbatim>\<open>delete\<close> does not throw, the staged file is gone after the call and nothing is
  logged; if it throws, exactly one warning is logged and the file stays. The outcome of
  the call is the same whatever \<^verbatim>\<open>delete\<close> does: an \<^verbatim>\<open>InternalError\<close> carrying stderr on
  a non-zero exit, success otherwise.
\<close>

theorem staged_file_cleanup:
  assumes "content_call_staged e w a" "filename a = Some f" "content a = Some c"
    and "curl e (length (spawned w)) = Exited exitCode out err"
    and "handleUploadFileContent e a w = (r, w')"
  shows "spawned w' = spawned w @
           [\<lparr>command = uploadCommand (uuid_source e (uuid_count w) @ ''/'' @ basename f)
                         (temp_path e w f) (mime_precedence (mime_type a) c f),
             body = Some (Buffer_from_base64 (snd (strip_data_url (mime_type a) c)))\<rparr>]
     \<and> fs w' =
         (case delete_error e (temp_path e w f) of
            None \<Rightarrow> (fs w)(temp_path e w f := None)
          | Some m \<Rightarrow>
              (fs w)(temp_path e w f \<mapsto> Buffer_from_base64 (snd (strip_data_url (mime_type a) c))))
     \<and> console w' =
         (case delete_error e (temp_path e w f) of
            None \<Rightarrow> console w
          | Some m \<Rightarrow> console w @ [''Warning: Failed to clean up temporary file: '' @ m])
     \<and> (\<forall>d. fst (handleUploadFileContent (e\<lparr>delete_error := d\<rparr>) a w) = r)
     \<and> (exitCode \<noteq> 0 \<longrightarrow>
          r = Inl (McpError InternalError (''Failed to upload file content: Upload failed: '' @ err)))
     \<and> (exitCode = 0 \<longrightarrow> (\<exists>res. r = Inr res))"
proof -
  note run = handleUploadFileContent_exited[OF assms(1-4)]
  have staged': "content_call_staged (e\<lparr>delete_error := d\<rparr>) w a" for d
    using assms(1) by (simp add: content_call_staged_def temp_path_def split: option.splits)
  have curl': "curl (e\<lparr>delete_error := d\<rparr>) (length (spawned w)) = Exited exitCode out err" for d
    using assms(4) by simp
  have indep: "fst (handleUploadFileContent (e\<lparr>delete_error := d\<rparr>) a w) = r" for d
    using handleUploadFileContent_exited[OF staged' assms(2,3) curl', of d] run assms(5)
    by (simp add: Let_def temp_path_def)
  have w': "w' = cleanup e (temp_path e w f)
      (w\<lparr>uuid_count := Suc (uuid_count w),
         fs := (fs w)(temp_path e w f \<mapsto> Buffer_from_base64 (snd (strip_data_url (mime_type a) c))),
         spawned := spawned w @
           [\<lparr>command = uploadCommand (uuid_source e (uuid_count w) @ ''/'' @ basename f)
                         (temp_path e w f) (mime_precedence (mime_type a) c f),
             body = Some (Buffer_from_base64 (snd (strip_data_url (mime_type a) c)))\<rparr>]\<rparr>)"
    using run assms(5) by (simp add: Let_def)
  have r: "r = (if exitCode \<noteq> 0
         then Inl (McpError InternalError
                (''Failed to upload file content: Upload failed: '' @ err))
         else Inr \<lparr>c_success = True,
                   c_filename = basename f,
                   c_folder_id = uuid_source e (uuid_count w),
                   c_mime_type = mime_precedence (mime_type a) c f,
                   c_remote_path = uuid_source e (uuid_count w) @ ''/'' @ basename f,
                   c_url = public_prefix @ uuid_source e (uuid_count w) @ ''/'' @ basename f,
                   content_size = length (Buffer_from_base64 (snd (strip_data_url (mime_type a) c))),
                   c_message = ''File content uploaded successfully to ''
                     @ public_prefix @ uuid_source e (uuid_count w) @ ''/'' @ basename f\<rparr>)"
    using run assms(5) by (simp add: Let_def)
  show ?thesis
    using indep r
    by (auto simp: w' cleanup_alt split: option.splits)
qed

text \<open>
  The theorem at \<^const>\<open>hello_call\<close> in three environments: a successful transfer, a successful
  transfer with a failing \<^verbatim>\<open>delete\<close>, and a rejected transfer.
\<close>

theorem staged_file_cleanup_witness:
  "fs (snd (handleUploadFileContent example_env hello_call example_world)) hello_temp = None
   \<and> console (snd (handleUploadFileContent example_env hello_call example_world)) = []
   \<and> fs (snd (handleUploadFileContent undeletable_env hello_call example_world)) hello_temp
       = Some [0x68, 0x65, 0x6C, 0x6C, 0x6F]
   \<and> console (snd (handleUploadFileContent undeletable_env hello_call example_world))
       = [''Warning: Failed to clean up temporary file: EPERM: operation not permitted, unlink'']
   \<and> fst (handleUploadFileContent undeletable_env hello_call example_world)
       = fst (handleUploadFileContent example_env hello_call example_world)
   \<and> fs (snd (handleUploadFileContent rejecting_env hello_call example_world)) hello_temp = None
   \<and> fst (handleUploadFileContent rejecting_env hello_call example_world)
       = Inl \<lparr>code = InternalError,
              message = ''MCP error -32603: Failed to upload file content: Upload failed: curl: (22) The requested URL returned error: 403''\<rparr>"
proof -
  have c1: "curl example_env (length (spawned example_world)) = Exited 0 [] []"
    and c2: "curl undeletable_env (length (spawned example_world)) = Exited 0 [] []"
    and c3: "curl rejecting_env (length (spawned example_world))
             = Exited 22 [] ''curl: (22) The requested URL returned error: 403''"
    by (simp_all add: example_env_def undeletable_env_def rejecting_env_def)
  have d1: "delete_error example_env hello_temp = None"
    and d2: "delete_error undeletable_env hello_temp = Some ''EPERM: operation not permitted, unlink''"
    and d3: "delete_error rejecting_env hello_temp = None"
    and u: "undeletable_env = example_env\<lparr>delete_error := delete_error undeletable_env\<rparr>"
    by (simp_all add: example_env_def undeletable_env_def rejecting_env_def)
  note t1 = staged_file_cleanup[OF hello_staged(1) hello_fields(1,2) c1 pair_run]
  note t2 = staged_file_cleanup[OF hello_staged(2) hello_fields(1,2) c2 pair_run]
  note t3 = staged_file_cleanup[OF hello_staged(3) hello_fields(1,2) c3 pair_run]
  have i: "fst (handleUploadFileContent undeletable_env hello_call example_world)
       = fst (handleUploadFileContent example_env hello_call example_world)"
    using t1 u by metis
  have e: "console example_world = []" by (simp add: example_world_def)
  show ?thesis
    using t1 t2 t3 i
    by (simp add: hello_temp_path hello_fields hello_buffer d1 d2 d3 e McpError_def)
qed

section \<open>C4: precedence of MIME types in \<^verbatim>\<open>upload_file_content\<close>\<close>

text \<open>
  C4: in every call of \<^verbatim>\<open>upload_file_content\<close> with non-empty content and file name, the
  type in the \<^verbatim>\<open>Content-Type\<close> header of the process the call spawns (if it spawns one)
  and the \<^verbatim>\<open>mime_type\<close> of the success record (if the call succeeds) are both
  \<^const>\<open>mime_precedence\<close> of the arguments: the explicit non-empty \<^verbatim>\<open>mime_type\<close>, else the type
  of the data-URL prefix, else the table entry of the lowercased extension, else
  \<^verbatim>\<open>application/octet-stream\<close>. A type taken from a data-URL prefix is never empty, so a
  lower level is reached only when every higher one is absent.
\<close>

theorem mime_type_precedence:
  assumes "content a = Some c" "c \<noteq> []" "filename a = Some f" "f \<noteq> []"
    and "handleUploadFileContent e a w = (r, w')"
  shows "(spawned w' = spawned w
          \<or> (\<exists>rp src b. spawned w' = spawned w @
                [\<lparr>command = [''curl'', ''-X'', ''PUT'', rp, ''-T'', src, ''-H'',
                              ''Content-Type: '' @ mime_precedence (mime_type a) c f,
                              ''--silent'', ''--fail''],
                  body = b\<rparr>]))
     \<and> (\<forall>res. r = Inr res \<longrightarrow> c_mime_type res = mime_precedence (mime_type a) c f)
     \<and> (\<forall>m payload. match_data_url c = Some (m, payload) \<longrightarrow> m \<noteq> [])"
proof (cases "prefix_check_passes a")
  case False
  have "snd (handleUploadFileContent e a w) = w"
    using handleUploadFileContent_unchecked[OF False] .
  then have "w' = w" using assms(5) by simp
  moreover have "\<forall>res. r \<noteq> Inr res"
    using handleUploadFileContent_success[of e a w _ w'] assms(5) False
    by (auto simp: content_call_staged_def assms(3))
  ultimately show ?thesis using match_data_url_Some by blast
next
  case True
  then have v: "atob (take 100 (snd (strip_data_url (mime_type a) c))) \<noteq> None"
    using assms(1,3) by (simp add: prefix_check_passes_def)
  note run = handleUploadFileContent_validated[OF assms(1-4) v, of e w]
  have sp: "spawned w' = spawned w
          \<or> (\<exists>rp src b. spawned w' = spawned w @
                [\<lparr>command = [''curl'', ''-X'', ''PUT'', rp, ''-T'', src, ''-H'',
                              ''Content-Type: '' @ mime_precedence (mime_type a) c f,
                              ''--silent'', ''--fail''],
                  body = b\<rparr>])"
    using run assms(5)
    by (auto simp: Let_def cleanup_spawned uploadCommand_def
        split: option.splits proc_result.splits if_splits)
  have res: "\<forall>res. r = Inr res \<longrightarrow> c_mime_type res = mime_precedence (mime_type a) c f"
    using run assms(5)
    by (auto simp: Let_def split: option.splits proc_result.splits if_splits)
  show ?thesis using sp res match_data_url_Some by blast
qed

text \<open>
  The theorem at four calls, one for each level: an explicit type with a data-URL
  prefix, a data-URL prefix alone, a known extension alone, and an unknown extension.
\<close>

theorem mime_type_precedence_witness:
  "(\<exists>res. fst (handleUploadFileContent example_env explicit_call example_world) = Inr res
        \<and> c_mime_type res = ''text/csv'')
   \<and> (\<exists>res. fst (handleUploadFileContent example_env data_url_call example_world) = Inr res
        \<and> c_mime_type res = ''image/png'')
   \<and> (\<exists>res. fst (handleUploadFileContent example_env hello_call example_world) = Inr res
        \<and> c_mime_type res = ''text/plain'')
   \<and> (\<exists>res. fst (handleUploadFileContent example_env bin_content_call example_world) = Inr res
        \<and> c_mime_type res = ''application/octet-stream'')"
proof -
  have f: "content explicit_call = Some ''data:image/png;base64,aGVsbG8=''"
    "filename explicit_call = Some ''hello.txt''" "mime_type explicit_call = Some ''text/csv''"
    "content data_url_call = Some ''data:image/png;base64,aGVsbG8=''"
    "filename data_url_call = Some ''hello.txt''" "mime_type data_url_call = None"
    "content hello_call = Some ''aGVsbG8=''"
    "filename hello_call = Some ''hello.txt''" "mime_type hello_call = None"
    "content bin_content_call = Some ''AAE=''"
    "filename bin_content_call = Some ''data.bin''" "mime_type bin_content_call = None"
    by (simp_all add: explicit_call_def data_url_call_def hello_call_def bin_content_call_def)
  have t1: "\<forall>res. fst (handleUploadFileContent example_env explicit_call example_world) = Inr res
      \<longrightarrow> c_mime_type res = ''text/csv''"
    using mime_type_precedence[OF f(1) _ f(2) _ pair_run, of example_env example_world]
    by (simp add: f(3) precedence_levels)
  have t2: "\<forall>res. fst (handleUploadFileContent example_env data_url_call example_world) = Inr res
      \<longrightarrow> c_mime_type res = ''image/png''"
    using mime_type_precedence[OF f(4) _ f(5) _ pair_run, of example_env example_world]
    by (simp add: f(6) precedence_levels)
  have t3: "\<forall>res. fst (handleUploadFileContent example_env hello_call example_world) = Inr res
      \<longrightarrow> c_mime_type res = ''text/plain''"
    using mime_type_precedence[OF f(7) _ f(8) _ pair_run, of example_env example_world]
    by (simp add: f(9) precedence_levels)
  have t4: "\<forall>res. fst (handleUploadFileContent example_env bin_content_call example_world) = Inr res
      \<longrightarrow> c_mime_type res = ''application/octet-stream''"
    using mime_type_precedence[OF f(10) _ f(11) _ pair_run, of example_env example_world]
    by (simp add: f(12) precedence_levels)
  show ?thesis
    using precedence_runs t1 t2 t3 t4 by blast
qed

section \<open>C5: destination key and public URL of \<^verbatim>\<open>upload_file\<close>\<close>

text \<open>
  C5: a successful call of \<^verbatim>\<open>upload_file\<close> was made on the path of an existing file; its
  folder identifier is the identifier that \<^verbatim>\<open>randomUUID\<close> hands out for this call, which
  takes it from the source for good (the count of identifiers handed out grows by one,
  and no call of either operation ever lowers it); the destination key is \<^verbatim>\<open><folderId>/<basename(path)>\<close>
  and the URL is \<^verbatim>\<open>https://s3.reily.app/public/<folderId>/<basename(path)>\<close>. Hence, as
  long as \<^verbatim>\<open>randomUUID\<close> itself never repeats an identifier, a later successful call has
  a different folder identifier.
\<close>

theorem upload_file_destination_key:
  assumes "handleUploadFile e args w = (Inr r, w')"
  shows "(\<exists>p. file_path args = Some p \<and> exists_file w p
            \<and> remote_path r = folder_id r @ ''/'' @ basename p
            \<and> url r = ''https://s3.reily.app/public/'' @ folder_id r @ ''/'' @ basename p)
     \<and> folder_id r = uuid_source e (uuid_count w)
     \<and> uuid_count w' = Suc (uuid_count w)
     \<and> (\<forall>a v. uuid_count v \<le> uuid_count (snd (handleUploadFile e a v)))
     \<and> (\<forall>a v. uuid_count v \<le> uuid_count (snd (handleUploadFileContent e a v)))
     \<and> (\<forall>args2 w2 r2 w2'.
           inj (uuid_source e) \<and> uuid_count w' \<le> uuid_count w2
           \<and> handleUploadFile e args2 w2 = (Inr r2, w2')
           \<longrightarrow> folder_id r2 \<noteq> folder_id r)"
proof -
  from handleUploadFile_success[OF assms] obtain p out err where
    p: "file_path args = Some p" "fs w p \<noteq> None"
    and r: "folder_id r = uuid_source e (uuid_count w)"
      "remote_path r = uuid_source e (uuid_count w) @ ''/'' @ basename p"
      "url r = ''https://s3.reily.app/public/'' @ uuid_source e (uuid_count w) @ ''/'' @ basename p"
    and w': "uuid_count w' = Suc (uuid_count w)"
    by (elim exE conjE) simp
  have later: "folder_id r2 \<noteq> folder_id r"
    if "inj (uuid_source e)" "uuid_count w' \<le> uuid_count w2"
      "handleUploadFile e args2 w2 = (Inr r2, w2')" for args2 w2 r2 w2'
  proof -
    from handleUploadFile_success[OF that(3)]
    have "folder_id r2 = uuid_source e (uuid_count w2)" by (elim exE conjE) simp
    moreover have "uuid_count w2 \<noteq> uuid_count w" using that(2) w' by simp
    ultimately show ?thesis using that(1) r(1) by (simp add: inj_eq)
  qed
  show ?thesis
    using p r w' handleUploadFile_uuid_count handleUploadFileContent_uuid_count later
    by (simp add: exists_file_def) blast
qed

text \<open>
  Two calls on \<^verbatim>\<open>/tmp/a.png\<close>, the second in the world the first one left.
\<close>

theorem upload_file_destination_key_witness:
  "fst (handleUploadFile example_env png_call example_world) =
     Inr \<lparr>success = True, r_file_path = ''/tmp/a.png'',
          folder_id = ''6f1c2a9e-0b7d-4c3a-9e55-1d2e3f4a5b6c'',
          original_filename = ''a.png'', r_content_type = ''image/png'',
          remote_path = ''6f1c2a9e-0b7d-4c3a-9e55-1d2e3f4a5b6c/a.png'',
          url = ''https://s3.reily.app/public/6f1c2a9e-0b7d-4c3a-9e55-1d2e3f4a5b6c/a.png'',
          r_message = ''File uploaded successfully to https://s3.reily.app/public/6f1c2a9e-0b7d-4c3a-9e55-1d2e3f4a5b6c/a.png''\<rparr>
   \<and> fst (handleUploadFile example_env png_call
            (snd (handleUploadFile example_env png_call example_world))) =
     Inr \<lparr>success = True, r_file_path = ''/tmp/a.png'',
          folder_id = ''6f1c2a9e-0b7d-4c3a-9e55-1d2e3f4a5b6c0'',
          original_filename = ''a.png'', r_content_type = ''image/png'',
          remote_path = ''6f1c2a9e-0b7d-4c3a-9e55-1d2e3f4a5b6c0/a.png'',
          url = ''https://s3.reily.app/public/6f1c2a9e-0b7d-4c3a-9e55-1d2e3f4a5b6c0/a.png'',
          r_message = ''File uploaded successfully to https://s3.reily.app/public/6f1c2a9e-0b7d-4c3a-9e55-1d2e3f4a5b6c0/a.png''\<rparr>
   \<and> inj (uuid_source example_env)"
proof -
  define r1 where "r1 = \<lparr>success = True, r_file_path = ''/tmp/a.png'',
          folder_id = ''6f1c2a9e-0b7d-4c3a-9e55-1d2e3f4a5b6c'',
          original_filename = ''a.png'', r_content_type = ''image/png'',
          remote_path = ''6f1c2a9e-0b7d-4c3a-9e55-1d2e3f4a5b6c/a.png'',
          url = ''https://s3.reily.app/public/6f1c2a9e-0b7d-4c3a-9e55-1d2e3f4a5b6c/a.png'',
          r_message = ''File uploaded successfully to https://s3.reily.app/public/6f1c2a9e-0b7d-4c3a-9e55-1d2e3f4a5b6c/a.png''\<rparr>"
  define r2 where "r2 = \<lparr>success = True, r_file_path = ''/tmp/a.png'',
          folder_id = ''6f1c2a9e-0b7d-4c3a-9e55-1d2e3f4a5b6c0'',
          original_filename = ''a.png'', r_content_type = ''image/png'',
          remote_path = ''6f1c2a9e-0b7d-4c3a-9e55-1d2e3f4a5b6c0/a.png'',
          url = ''https://s3.reily.app/public/6f1c2a9e-0b7d-4c3a-9e55-1d2e3f4a5b6c0/a.png'',
          r_message = ''File uploaded successfully to https://s3.reily.app/public/6f1c2a9e-0b7d-4c3a-9e55-1d2e3f4a5b6c0/a.png''\<rparr>"
  define w1 where "w1 = snd (handleUploadFile example_env png_call example_world)"
  define w2 where "w2 = snd (handleUploadFile example_env png_call w1)"
  have f1: "fst (handleUploadFile example_env png_call example_world) = r1'" if "r1' = Inr r1" for r1'
    unfolding that r1_def by code_simp
  have f2: "fst (handleUploadFile example_env png_call
            (snd (handleUploadFile example_env png_call example_world))) = r2'"
    if "r2' = Inr r2" for r2'
    unfolding that r2_def by code_simp
  have run1: "handleUploadFile example_env png_call example_world = (Inr r1, w1)"
    using f1[OF refl] by (simp add: w1_def prod_eq_iff)
  have run2: "handleUploadFile example_env png_call w1 = (Inr r2, w2)"
    using f2[OF refl] by (simp add: w1_def w2_def prod_eq_iff)
  note t = upload_file_destination_key[OF run1]
  have "folder_id r2 \<noteq> folder_id r1"
    using t example_uuids_distinct run2 by blast
  then show ?thesis
    using f1[OF refl] f2[OF refl] example_uuids_distinct by (simp add: r1_def r2_def)
qed

section \<open>C6: the two defaults for an unknown extension\<close>

text \<open>
  C6: when the lowercased extension of the file name is not in its table,
  \<^verbatim>\<open>detectContentType\<close> returns \<^verbatim>\<open>image/jpeg\<close> and the block of \<^verbatim>\<open>handleUploadFileContent\<close>
  that runs when \<^verbatim>\<open>mime_type\<close> is absent or empty gives \<^verbatim>\<open>application/octet-stream\<close>. Both
  read the name only: two names with the same extension get the same type, and a
  successful \<^verbatim>\<open>upload_file\<close> without \<^verbatim>\<open>content_type\<close> reports \<^verbatim>\<open>image/jpeg\<close> whatever bytes
  the file holds.
\<close>

theorem unknown_extension_defaults:
  "(map_of mimeMap (toLowerCase (extname p)) = None \<longrightarrow> detectContentType p = ''image/jpeg'')
   \<and> (falsy mt \<and> map_of contentMimeMap (toLowerCase (extname f)) = None
        \<longrightarrow> detectedMimeType mt f = ''application/octet-stream'')
   \<and> (extname p = extname q \<longrightarrow> detectContentType p = detectContentType q)
   \<and> (falsy mt \<and> extname f = extname g \<longrightarrow> detectedMimeType mt f = detectedMimeType mt g)
   \<and> (file_path a = Some p \<and> falsy (content_type a)
        \<and> map_of mimeMap (toLowerCase (extname p)) = None
        \<and> handleUploadFile e a w = (Inr r, w')
        \<longrightarrow> r_content_type r = ''image/jpeg'')
   \<and> (content ca = Some c \<and> filename ca = Some f \<and> falsy (mime_type ca)
        \<and> match_data_url c = None
        \<and> map_of contentMimeMap (toLowerCase (extname f)) = None
        \<and> handleUploadFileContent e ca w = (Inr cr, cw')
        \<longrightarrow> c_mime_type cr = ''application/octet-stream'')"
proof (intro conjI impI)
  assume "file_path a = Some p \<and> falsy (content_type a)
        \<and> map_of mimeMap (toLowerCase (extname p)) = None
        \<and> handleUploadFile e a w = (Inr r, w')"
  then show "r_content_type r = ''image/jpeg''"
    using handleUploadFile_success[of e a w r w']
    by (auto simp: detectContentType_def)
next
  assume h: "content ca = Some c \<and> filename ca = Some f \<and> falsy (mime_type ca)
        \<and> match_data_url c = None
        \<and> map_of contentMimeMap (toLowerCase (extname f)) = None
        \<and> handleUploadFileContent e ca w = (Inr cr, cw')"
  then have run: "handleUploadFileContent e ca w = (Inr cr, cw')" by simp
  from handleUploadFileContent_success[OF run] h obtain out err where
    st: "content_call_staged e w ca" "curl e (length (spawned w)) = Exited 0 out err"
    by auto
  have "c_mime_type cr = mime_precedence (mime_type ca) c f"
    using handleUploadFileContent_exited[OF st(1) _ _ st(2), of f c] h
    by (auto simp: Let_def)
  moreover have "mime_precedence (mime_type ca) c f = ''application/octet-stream''"
    using h by (cases "mime_type ca") (auto simp: mime_precedence_def)
  ultimately show "c_mime_type cr = ''application/octet-stream''" by simp
qed (auto simp: detectContentType_def detectedMimeType_def)

text \<open>
  The theorem at the extension \<^verbatim>\<open>.bin\<close>, which neither table has: the same two bytes are
  reported as \<^verbatim>\<open>image/jpeg\<close> by \<^verbatim>\<open>upload_file\<close> and as \<^verbatim>\<open>application/octet-stream\<close> by
  \<^verbatim>\<open>upload_file_content\<close>.
\<close>

theorem unknown_extension_defaults_witness:
  "map_of mimeMap (toLowerCase (extname ''/tmp/data.bin'')) = None
   \<and> detectContentType ''/tmp/data.bin'' = ''image/jpeg''
   \<and> map_of contentMimeMap (toLowerCase (extname ''data.bin'')) = None
   \<and> detectedMimeType None ''data.bin'' = ''application/octet-stream''
   \<and> detectContentType ''/srv/OTHER.bin'' = ''image/jpeg''
   \<and> detectedMimeType None ''/srv/OTHER.bin'' = ''application/octet-stream''
   \<and> (\<exists>r. fst (handleUploadFile example_env bin_call example_world) = Inr r
          \<and> r_content_type r = ''image/jpeg'')
   \<and> (\<exists>cr. fst (handleUploadFileContent example_env bin_content_call example_world) = Inr cr
          \<and> c_mime_type cr = ''application/octet-stream'')"
proof -
  obtain r where r: "fst (handleUploadFile example_env bin_call example_world) = Inr r"
    using bin_runs(1) by blast
  obtain cr where cr: "fst (handleUploadFileContent example_env bin_content_call example_world) = Inr cr"
    using bin_runs(2) by blast
  have r1: "handleUploadFile example_env bin_call example_world =
      (Inr r, snd (handleUploadFile example_env bin_call example_world))"
    using r by (simp add: prod_eq_iff)
  have r2: "handleUploadFileContent example_env bin_content_call example_world =
      (Inr cr, snd (handleUploadFileContent example_env bin_content_call example_world))"
    using cr by (simp add: prod_eq_iff)
  have f: "file_path bin_call = Some ''/tmp/data.bin''" "falsy (content_type bin_call)"
    "content bin_content_call = Some ''AAE=''" "filename bin_content_call = Some ''data.bin''"
    "falsy (mime_type bin_content_call)" "falsy None"
    by (simp_all add: bin_call_def bin_content_call_def)
  note t = unknown_extension_defaults[of "''/tmp/data.bin''" None "''data.bin''" "''/srv/OTHER.bin''"
      "''/srv/OTHER.bin''" bin_call example_env example_world r
      "snd (handleUploadFile example_env bin_call example_world)"
      bin_content_call "''AAE=''" cr
      "snd (handleUploadFileContent example_env bin_content_call example_world)"]
  have a1: "detectContentType ''/tmp/data.bin'' = ''image/jpeg''"
    using t bin_lookups(1) by blast
  have a2: "detectedMimeType None ''data.bin'' = ''application/octet-stream''"
    using t bin_lookups(2) f(6) by blast
  have a3: "detectContentType ''/tmp/data.bin'' = detectContentType ''/srv/OTHER.bin''"
    using t bin_lookups(3) by blast
  have a4: "detectedMimeType None ''data.bin'' = detectedMimeType None ''/srv/OTHER.bin''"
    using t bin_lookups(4) f(6) by blast
  have a5: "r_content_type r = ''image/jpeg''"
    using t bin_lookups(1) f(1,2) r1 by blast
  have a6: "c_mime_type cr = ''application/octet-stream''"
    using t bin_lookups(2,5) f(3,4,5) r2 by blast
  have b3: "detectContentType ''/srv/OTHER.bin'' = ''image/jpeg''"
    using a1 a3 by (simp only:)
  have b4: "detectedMimeType None ''/srv/OTHER.bin'' = ''application/octet-stream''"
    using a2 a4 by (simp only:)
  show ?thesis
    using bin_lookups(1,2) a1 a2 b3 b4 a5 a6 r cr by blast
qed

section \<open>C7: round trip through base64\<close>

text \<open>
  Counterexample to C7 as stated ("for every byte sequence"): the empty byte sequence
  encodes to the empty string, which the first check of \<^verbatim>\<open>handleUploadFileContent\<close>
  rejects: nothing is decoded or transferred, and there is no success record.
\<close>

theorem empty_bytes_rejected_counterexample:
  "base64_encode [] = []
   \<and> handleUploadFileContent example_env empty_call example_world =
       (Inl \<lparr>code = InvalidParams,
             message = ''MCP error -32602: content and filename are required''\<rparr>,
        example_world)"
  by (simp add: handleUploadFileContent_def empty_call_def McpError_def)

text \<open>
  C7, amended: for every non-empty byte sequence and non-empty file name, the padded
  base64 encoding of the bytes passes the checks of \<^verbatim>\<open>upload_file_content\<close> and decodes
  back to the same bytes; if the staging write does not throw and the curl process
  starts, these bytes are what the staged file holds when it starts; a success record
  has \<^verbatim>\<open>content_size\<close> equal to the number of bytes, and the call succeeds whenever curl
  exits with code 0.
\<close>

theorem base64_round_trip:
  assumes "bs \<noteq> []" "f \<noteq> []"
    and "a = \<lparr>content = Some (base64_encode bs), filename = Some f, mime_type = mt\<rparr>"
    and "write_error e (temp_path e w f) = None"
    and "handleUploadFileContent e a w = (r, w')"
  shows "Buffer_from_base64 (base64_encode bs) = bs
     \<and> prefix_check_passes a
     \<and> (curl_starts e w
          \<longrightarrow> (\<exists>cmd. spawned w' = spawned w @ [\<lparr>command = cmd, body = Some bs\<rparr>]))
     \<and> (\<forall>res. r = Inr res \<longrightarrow> content_size res = length bs)
     \<and> (\<forall>out err. curl e (length (spawned w)) = Exited 0 out err \<longrightarrow> (\<exists>res. r = Inr res))"
proof -
  have c: "content a = Some (base64_encode bs)" and fn: "filename a = Some f"
    and m: "mime_type a = mt"
    by (simp_all add: assms(3))
  have ne: "base64_encode bs \<noteq> []" using assms(1) by (rule encoding_nonempty)
  have st: "strip_data_url mt (base64_encode bs) = (mt, base64_encode bs)"
    using encoding_not_data_url by (rule strip_data_url_plain)
  have v: "atob (take 100 (snd (strip_data_url (mime_type a) (base64_encode bs)))) \<noteq> None"
    using atob_prefix_of_encoding[of bs] by (simp add: m st)
  have p: "prefix_check_passes a"
    using c fn ne assms(2) v by (simp add: prefix_check_passes_def)
  have buf: "Buffer_from_base64 (snd (strip_data_url (mime_type a) (base64_encode bs))) = bs"
    by (simp add: m st Buffer_from_base64_encode)
  note run = handleUploadFileContent_validated[OF c ne fn assms(2) v, of e w]
  have sp: "curl_starts e w
          \<longrightarrow> (\<exists>cmd. spawned w' = spawned w @ [\<lparr>command = cmd, body = Some bs\<rparr>])"
    using run assms(4,5) buf
    by (auto simp: Let_def temp_path_def cleanup_spawned curl_starts_def
        split: proc_result.splits if_splits)
  have sz: "\<forall>res. r = Inr res \<longrightarrow> content_size res = length bs"
    using run assms(4,5) buf
    by (auto simp: Let_def temp_path_def split: proc_result.splits if_splits)
  have ok: "\<forall>out err. curl e (length (spawned w)) = Exited 0 out err \<longrightarrow> (\<exists>res. r = Inr res)"
    using run assms(4,5)
    by (auto simp: Let_def temp_path_def)
  show ?thesis using Buffer_from_base64_encode p sp sz ok by blast
qed

text \<open>The theorem at the five bytes of \<^verbatim>\<open>hello\<close>, the call being \<^const>\<open>hello_call\<close>.\<close>

theorem base64_round_trip_witness:
  "base64_encode [0x68, 0x65, 0x6C, 0x6C, 0x6F] = ''aGVsbG8=''
   \<and> Buffer_from_base64 ''aGVsbG8='' = [0x68, 0x65, 0x6C, 0x6C, 0x6F]
   \<and> (\<exists>cmd. spawned (snd (handleUploadFileContent example_env hello_call example_world)) =
          spawned example_world @ [\<lparr>command = cmd, body = Some [0x68, 0x65, 0x6C, 0x6C, 0x6F]\<rparr>])
   \<and> (\<exists>res. fst (handleUploadFileContent example_env hello_call example_world) = Inr res
          \<and> content_size res = 5)"
proof -
  have a: "hello_call = \<lparr>content = Some (base64_encode [0x68, 0x65, 0x6C, 0x6C, 0x6F]),
      filename = Some ''hello.txt'', mime_type = None\<rparr>"
    by (simp only: hello_call_def hello_encoding)
  have wr: "write_error example_env (temp_path example_env example_world ''hello.txt'') = None"
    by (simp add: example_env_def)
  have c: "curl example_env (length (spawned example_world)) = Exited 0 [] []"
    by (simp add: example_env_def)
  note t = base64_round_trip[OF _ _ a wr pair_run]
  have "Buffer_from_base64 ''aGVsbG8='' = [0x68, 0x65, 0x6C, 0x6C, 0x6F]"
    using t hello_encoding by simp
  moreover have "\<exists>cmd. spawned (snd (handleUploadFileContent example_env hello_call example_world)) =
          spawned example_world @ [\<lparr>command = cmd, body = Some [0x68, 0x65, 0x6C, 0x6C, 0x6F]\<rparr>]"
    using t c by (simp add: curl_starts_def)
  moreover have "\<exists>res. fst (handleUploadFileContent example_env hello_call example_world) = Inr res
          \<and> content_size res = 5"
  proof -
    from t c obtain res where
      "fst (handleUploadFileContent example_env hello_call example_world) = Inr res"
      by auto
    moreover from this t have "content_size res = length [0x68, 0x65, 0x6C, 0x6C, 0x6F :: byte]"
      by auto
    ultimately show ?thesis by simp
  qed
  ultimately show ?thesis using hello_encoding by blast
qed

section \<open>C8: one transfer, no retry\<close>

text \<open>
  Counterexample to C8 as stated ("each call issues exactly one outbound PUT"): a call
  on an existing file gets past every check, but \<^verbatim>\<open>Bun.spawn\<close> throws, so no curl
  process exists and no PUT is sent; and a call on a path that names no file is stopped
  before the transfer and starts no process either.
\<close>

theorem calls_without_transfer_counterexample:
  "file_call_valid example_world png_call
   \<and> spawned (snd (handleUploadFile spawnless_env png_call example_world)) = []
   \<and> spawned (snd (handleUploadFile example_env missing_call example_world)) = []"
  by code_simp

text \<open>
  C8, amended: a call of either operation starts curl exactly once if it gets past its
  checks (\<^verbatim>\<open>upload_file\<close>: a non-empty path of an existing file; \<^verbatim>\<open>upload_file_content\<close>:
  non-empty arguments, an accepted prefix and a staging write that does not throw) and
  \<^verbatim>\<open>Bun.spawn\<close> does not throw, and not at all otherwise, so never more than once; and
  when that one process exits with a non-zero code, the call fails with one
  \<^verbatim>\<open>InternalError\<close> whose message ends with the stderr text of the process.
\<close>

theorem one_transfer_per_call:
  "(if file_call_valid w a \<and> curl_starts e w
    then \<exists>t. spawned (snd (handleUploadFile e a w)) = spawned w @ [t]
    else spawned (snd (handleUploadFile e a w)) = spawned w)
   \<and> (if content_call_staged e w ca \<and> curl_starts e w
       then \<exists>t. spawned (snd (handleUploadFileContent e ca w)) = spawned w @ [t]
       else spawned (snd (handleUploadFileContent e ca w)) = spawned w)
   \<and> (file_call_valid w a \<and> curl e (length (spawned w)) = Exited exitCode out err
        \<and> exitCode \<noteq> 0
        \<longrightarrow> fst (handleUploadFile e a w) =
              Inl \<lparr>code = InternalError,
                   message = ''MCP error -32603: Failed to upload file: Upload failed: '' @ err\<rparr>)
   \<and> (content_call_staged e w ca \<and> curl e (length (spawned w)) = Exited exitCode out err
        \<and> exitCode \<noteq> 0
        \<longrightarrow> fst (handleUploadFileContent e ca w) =
              Inl \<lparr>code = InternalError,
                   message = ''MCP error -32603: Failed to upload file content: Upload failed: ''
                     @ err\<rparr>)"
proof (intro conjI impI)
  show "if file_call_valid w a \<and> curl_starts e w
    then \<exists>t. spawned (snd (handleUploadFile e a w)) = spawned w @ [t]
    else spawned (snd (handleUploadFile e a w)) = spawned w"
    using handleUploadFile_valid_spawns[of w a e] handleUploadFile_invalid[of w a e]
    by (cases "file_call_valid w a") (simp_all split: if_splits)
  show "if content_call_staged e w ca \<and> curl_starts e w
       then \<exists>t. spawned (snd (handleUploadFileContent e ca w)) = spawned w @ [t]
       else spawned (snd (handleUploadFileContent e ca w)) = spawned w"
    using handleUploadFileContent_staged_spawns[of e w ca]
      handleUploadFileContent_unstaged[of e w ca]
    by (cases "content_call_staged e w ca") (simp_all split: if_splits)
next
  assume h: "file_call_valid w a \<and> curl e (length (spawned w)) = Exited exitCode out err
        \<and> exitCode \<noteq> 0"
  then obtain p where p: "file_path a = Some p" "p \<noteq> []" "fs w p \<noteq> None"
    by (cases "file_path a") (auto simp: file_call_valid_def exists_file_def)
  show "fst (handleUploadFile e a w) =
              Inl \<lparr>code = InternalError,
                   message = ''MCP error -32603: Failed to upload file: Upload failed: '' @ err\<rparr>"
    using handleUploadFile_valid[OF p, of e] h by (simp add: Let_def McpError_def)
next
  assume h: "content_call_staged e w ca \<and> curl e (length (spawned w)) = Exited exitCode out err
        \<and> exitCode \<noteq> 0"
  then obtain f where f: "filename ca = Some f"
    by (cases "filename ca") (auto simp: content_call_staged_def)
  from h f have "prefix_check_passes ca" by (simp add: content_call_staged_def)
  from prefix_check_passesD[OF this] obtain c where c: "content ca = Some c" by blast
  show "fst (handleUploadFileContent e ca w) =
              Inl \<lparr>code = InternalError,
                   message = ''MCP error -32603: Failed to upload file content: Upload failed: ''
                     @ err\<rparr>"
    using handleUploadFileContent_exited[OF _ f c, of e w exitCode out err] h
    by (simp add: Let_def McpError_def)
qed

text \<open>
  The theorem in the environment where curl exits with code 22, and in the one where
  \<^verbatim>\<open>Bun.spawn\<close> throws: with curl at hand, the two calls that get past their checks
  start one process each and fail with stderr in the message, and the two that do not
  start nothing; without curl, no call starts a process.
\<close>

theorem one_transfer_per_call_witness:
  "(\<exists>t. spawned (snd (handleUploadFile rejecting_env png_call example_world)) = [t])
   \<and> spawned (snd (handleUploadFile rejecting_env missing_call example_world)) = []
   \<and> (\<exists>t. spawned (snd (handleUploadFileContent rejecting_env hello_call example_world)) = [t])
   \<and> spawned (snd (handleUploadFileContent rejecting_env not_base64_call example_world)) = []
   \<and> fst (handleUploadFile rejecting_env png_call example_world) =
       Inl \<lparr>code = InternalError,
            message = ''MCP error -32603: Failed to upload file: Upload failed: curl: (22) The requested URL returned error: 403''\<rparr>
   \<and> fst (handleUploadFileContent rejecting_env hello_call example_world) =
       Inl \<lparr>code = InternalError,
            message = ''MCP error -32603: Failed to upload file content: Upload failed: curl: (22) The requested URL returned error: 403''\<rparr>
   \<and> spawned (snd (handleUploadFile spawnless_env png_call example_world)) = []
   \<and> spawned (snd (handleUploadFileContent spawnless_env hello_call example_world)) = []"
proof -
  have c: "curl rejecting_env (length (spawned example_world))
             = Exited 22 [] ''curl: (22) The requested URL returned error: 403''"
    and s: "spawned example_world = []"
    and st: "curl_starts rejecting_env example_world"
      "curl_starts spawnless_env example_world = False"
    by (simp_all add: rejecting_env_def spawnless_env_def example_env_def example_world_def
        curl_starts_def)
  have n: "(22::int) \<noteq> 0" by simp
  note t1 = one_transfer_per_call[of example_world png_call rejecting_env hello_call 22 "[]"
      "''curl: (22) The requested URL returned error: 403''"]
  note t2 = one_transfer_per_call[of example_world missing_call rejecting_env not_base64_call 22 "[]"
      "''curl: (22) The requested URL returned error: 403''"]
  note t3 = one_transfer_per_call[of example_world png_call spawnless_env hello_call 22 "[]" "[]"]
  show ?thesis
    using t1 t2 t3 c n by (simp add: example_validity s st)
qed

section \<open>C9: nothing is checked after the first 100 characters\<close>

text \<open>
  C9: once \<^verbatim>\<open>atob\<close> has accepted the first 100 characters, the call succeeds exactly when
  the staging write does not throw and curl exits with code 0, and every failure has code
  \<^verbatim>\<open>InternalError\<close>: the full decode, a total function, adds no way to fail, and the
  reported \<^verbatim>\<open>content_size\<close> is the length of whatever it returns, which is also what the
  staged file holds when the curl process starts. In particular content made of 100 alphabet
  characters followed by any characters at all passes the check.
\<close>

theorem full_decode_never_rejects:
  assumes "prefix_check_passes a" "content a = Some c" "filename a = Some f"
  shows "((\<exists>res. fst (handleUploadFileContent e a w) = Inr res)
          = (write_error e (temp_path e w f) = None
             \<and> (\<exists>out err. curl e (length (spawned w)) = Exited 0 out err)))
     \<and> (\<forall>res. fst (handleUploadFileContent e a w) = Inr res
          \<longrightarrow> content_size res = length (Buffer_from_base64 (snd (strip_data_url (mime_type a) c))))
     \<and> (\<forall>err. fst (handleUploadFileContent e a w) = Inl err \<longrightarrow> code err = InternalError)
     \<and> (write_error e (temp_path e w f) = None \<and> curl_starts e w \<longrightarrow>
          (\<exists>cmd. spawned (snd (handleUploadFileContent e a w)) = spawned w @
             [\<lparr>command = cmd,
               body = Some (Buffer_from_base64 (snd (strip_data_url (mime_type a) c)))\<rparr>]))
     \<and> (\<forall>p g f' mt. length p = 100 \<and> set p \<subseteq> set b64_chars \<and> f' \<noteq> []
          \<longrightarrow> prefix_check_passes \<lparr>content = Some (p @ g), filename = Some f', mime_type = mt\<rparr>)"
proof -
  from prefix_check_passesD[OF assms(1)] assms(2,3)
  have v: "c \<noteq> []" "f \<noteq> []" "atob (take 100 (snd (strip_data_url (mime_type a) c))) \<noteq> None"
    by auto
  note run = handleUploadFileContent_validated[OF assms(2) v(1) assms(3) v(2,3), of e w]
  have 1: "(\<exists>res. fst (handleUploadFileContent e a w) = Inr res)
          = (write_error e (temp_path e w f) = None
             \<and> (\<exists>out err. curl e (length (spawned w)) = Exited 0 out err))"
    unfolding run
    by (auto simp: Let_def temp_path_def split: option.splits proc_result.splits)
  have 2: "\<forall>res. fst (handleUploadFileContent e a w) = Inr res
          \<longrightarrow> content_size res = length (Buffer_from_base64 (snd (strip_data_url (mime_type a) c)))"
    unfolding run
    by (auto simp: Let_def split: option.splits proc_result.splits if_splits)
  have 3: "\<forall>err. fst (handleUploadFileContent e a w) = Inl err \<longrightarrow> code err = InternalError"
    unfolding run
    by (auto simp: Let_def McpError_def split: option.splits proc_result.splits if_splits)
  have 4: "write_error e (temp_path e w f) = None \<and> curl_starts e w \<longrightarrow>
          (\<exists>cmd. spawned (snd (handleUploadFileContent e a w)) = spawned w @
             [\<lparr>command = cmd,
               body = Some (Buffer_from_base64 (snd (strip_data_url (mime_type a) c)))\<rparr>])"
    unfolding run
    by (auto simp: Let_def temp_path_def cleanup_spawned curl_starts_def
        split: proc_result.splits)
  show ?thesis using 1 2 3 4 alphabet_prefix_accepted by blast
qed

text \<open>
  The theorem at \<^const>\<open>late_garbage_call\<close>, whose content has characters outside the alphabet
  from position 100 on: the call is accepted and succeeds.
\<close>

theorem full_decode_never_rejects_witness:
  "prefix_check_passes late_garbage_call
   \<and> atob late_garbage = None
   \<and> (\<exists>cmd. spawned (snd (handleUploadFileContent example_env late_garbage_call example_world)) =
          [\<lparr>command = cmd, body = Some (Buffer_from_base64 late_garbage)\<rparr>])
   \<and> (\<exists>res. fst (handleUploadFileContent example_env late_garbage_call example_world) = Inr res
          \<and> content_size res = length (Buffer_from_base64 late_garbage))"
proof -
  have f: "content late_garbage_call = Some late_garbage"
    "filename late_garbage_call = Some ''g.bin''" "mime_type late_garbage_call = None"
    by (simp_all add: late_garbage_call_def)
  have gen: "\<forall>p g f' mt. length p = 100 \<and> set p \<subseteq> set b64_chars \<and> f' \<noteq> []
          \<longrightarrow> prefix_check_passes \<lparr>content = Some (p @ g), filename = Some f', mime_type = mt\<rparr>"
    using full_decode_never_rejects[of hello_call "''aGVsbG8=''" "''hello.txt''" example_env
        example_world] hello_staged(1) hello_fields
    by (simp add: content_call_staged_def)
  have p: "prefix_check_passes late_garbage_call"
    using gen late_garbage_parts
    by (simp add: late_garbage_call_def late_garbage_def)
  note t = full_decode_never_rejects[OF p f(1,2), of example_env example_world]
  have wr: "write_error example_env (temp_path example_env example_world ''g.bin'') = None"
    and c: "curl example_env (length (spawned example_world)) = Exited 0 [] []"
    by (simp_all add: example_env_def)
  with t obtain res where
    r: "fst (handleUploadFileContent example_env late_garbage_call example_world) = Inr res"
    by blast
  have st: "strip_data_url None late_garbage = (None, late_garbage)"
    by code_simp
  have "content_size res = length (Buffer_from_base64 late_garbage)"
    using t r by (simp add: f(3) st)
  moreover have "atob late_garbage = None" by code_simp
  moreover have "\<exists>cmd. spawned (snd (handleUploadFileContent example_env late_garbage_call
        example_world)) = [\<lparr>command = cmd, body = Some (Buffer_from_base64 late_garbage)\<rparr>]"
    using t wr c by (simp add: f(3) st example_world_def curl_starts_def)
  ultimately show ?thesis using p r by blast
qed

section \<open>C10: the success record agrees with the transfer\<close>

text \<open>
  C10: a successful call of either operation has spawned exactly one process, the curl
  PUT whose URL argument is the \<^verbatim>\<open>url\<close> field and whose header argument is
  \<^verbatim>\<open>Content-Type: \<close> followed by the \<^verbatim>\<open>content_type\<close> (\<^verbatim>\<open>upload_file\<close>) or \<^verbatim>\<open>mime_type\<close>
  (\<^verbatim>\<open>upload_file_content\<close>) field; \<^verbatim>\<open>url\<close> is \<^verbatim>\<open>https://s3.reily.app/public/\<close> followed
  by \<^verbatim>\<open>remote_path\<close>, and \<^verbatim>\<open>remote_path\<close> is \<^verbatim>\<open>folder_id\<close>, a slash and the reported file
  name.
\<close>

theorem success_record_consistent:
  "(handleUploadFile e a w = (Inr r, w') \<longrightarrow>
      (\<exists>src b. spawned w' = spawned w @
         [\<lparr>command = [''curl'', ''-X'', ''PUT'', url r, ''-T'', src,
                       ''-H'', ''Content-Type: '' @ r_content_type r, ''--silent'', ''--fail''],
           body = b\<rparr>])
      \<and> url r = ''https://s3.reily.app/public/'' @ remote_path r
      \<and> remote_path r = folder_id r @ ''/'' @ original_filename r)
   \<and> (handleUploadFileContent e ca w = (Inr cr, cw') \<longrightarrow>
      (\<exists>src b. spawned cw' = spawned w @
         [\<lparr>command = [''curl'', ''-X'', ''PUT'', c_url cr, ''-T'', src,
                       ''-H'', ''Content-Type: '' @ c_mime_type cr, ''--silent'', ''--fail''],
           body = b\<rparr>])
      \<and> c_url cr = ''https://s3.reily.app/public/'' @ c_remote_path cr
      \<and> c_remote_path cr = c_folder_id cr @ ''/'' @ c_filename cr)"
proof (intro conjI impI)
  assume run: "handleUploadFile e a w = (Inr r, w')"
  from handleUploadFile_success[OF run] obtain p where
    r: "r = \<lparr>success = True,
                   r_file_path = p,
                   folder_id = uuid_source e (uuid_count w),
                   original_filename = basename p,
                   r_content_type =
                     (if falsy (content_type a) then detectContentType p
                      else the (content_type a)),
                   remote_path = uuid_source e (uuid_count w) @ ''/'' @ basename p,
                   url = ''https://s3.reily.app/public/'' @ uuid_source e (uuid_count w) @ ''/''
                         @ basename p,
                   r_message = ''File uploaded successfully to https://s3.reily.app/public/''
                         @ uuid_source e (uuid_count w) @ ''/'' @ basename p\<rparr>"
    and w': "w' = w\<lparr>uuid_count := Suc (uuid_count w),
                     spawned := spawned w @
                       [\<lparr>command = uploadCommand (remote_path r) p (r_content_type r),
                         body = fs w p\<rparr>]\<rparr>"
    by blast
  have "spawned w' = spawned w @
         [\<lparr>command = [''curl'', ''-X'', ''PUT'', url r, ''-T'', p,
                       ''-H'', ''Content-Type: '' @ r_content_type r, ''--silent'', ''--fail''],
           body = fs w p\<rparr>]"
    by (subst w', subst (3) r) (simp add: r uploadCommand_def public_prefix_def)
  then show "\<exists>src b. spawned w' = spawned w @
         [\<lparr>command = [''curl'', ''-X'', ''PUT'', url r, ''-T'', src,
                       ''-H'', ''Content-Type: '' @ r_content_type r, ''--silent'', ''--fail''],
           body = b\<rparr>]"
    by blast
  show "url r = ''https://s3.reily.app/public/'' @ remote_path r" by (simp add: r)
  show "remote_path r = folder_id r @ ''/'' @ original_filename r" by (simp add: r)
next
  assume run: "handleUploadFileContent e ca w = (Inr cr, cw')"
  from handleUploadFileContent_success[OF run] obtain c f out err where
    cf: "content ca = Some c" "filename ca = Some f" "content_call_staged e w ca"
      "curl e (length (spawned w)) = Exited 0 out err"
    by blast
  note ex = handleUploadFileContent_exited[OF cf(3,2,1,4)]
  have cr: "cr = \<lparr>c_success = True,
                   c_filename = basename f,
                   c_folder_id = uuid_source e (uuid_count w),
                   c_mime_type = mime_precedence (mime_type ca) c f,
                   c_remote_path = uuid_source e (uuid_count w) @ ''/'' @ basename f,
                   c_url = public_prefix @ uuid_source e (uuid_count w) @ ''/'' @ basename f,
                   content_size = length (Buffer_from_base64 (snd (strip_data_url (mime_type ca) c))),
                   c_message = ''File content uploaded successfully to ''
                     @ public_prefix @ uuid_source e (uuid_count w) @ ''/'' @ basename f\<rparr>"
    using ex run by (simp add: Let_def)
  have sp: "spawned cw' = spawned w @
                [\<lparr>command = uploadCommand (uuid_source e (uuid_count w) @ ''/'' @ basename f)
                     (temp_path e w f) (mime_precedence (mime_type ca) c f),
                  body = Some (Buffer_from_base64 (snd (strip_data_url (mime_type ca) c)))\<rparr>]"
    using staged_spawned[OF cf(3,2,1,4) run] .
  have "spawned cw' = spawned w @
         [\<lparr>command = [''curl'', ''-X'', ''PUT'', c_url cr, ''-T'', temp_path e w f,
                       ''-H'', ''Content-Type: '' @ c_mime_type cr, ''--silent'', ''--fail''],
           body = Some (Buffer_from_base64 (snd (strip_data_url (mime_type ca) c)))\<rparr>]"
    unfolding sp by (simp add: cr uploadCommand_def)
  then show "\<exists>src b. spawned cw' = spawned w @
         [\<lparr>command = [''curl'', ''-X'', ''PUT'', c_url cr, ''-T'', src,
                       ''-H'', ''Content-Type: '' @ c_mime_type cr, ''--silent'', ''--fail''],
           body = b\<rparr>]"
    by blast
  show "c_url cr = ''https://s3.reily.app/public/'' @ c_remote_path cr"
    by (simp add: cr public_prefix_def)
  show "c_remote_path cr = c_folder_id cr @ ''/'' @ c_filename cr" by (simp add: cr)
qed

text \<open>
  The theorem at \<^const>\<open>png_call\<close> and \<^const>\<open>hello_call\<close>: both succeed, and the one process each
  has spawned carries the URL and the content type of the record.
\<close>

theorem success_record_consistent_witness:
  "fst (handleUploadFile example_env png_call example_world) = Inr png_result
   \<and> spawned (snd (handleUploadFile example_env png_call example_world)) =
       [\<lparr>command = [''curl'', ''-X'', ''PUT'', url png_result, ''-T'', ''/tmp/a.png'',
                     ''-H'', ''Content-Type: '' @ r_content_type png_result, ''--silent'', ''--fail''],
         body = Some [0x89, 0x50, 0x4E, 0x47]\<rparr>]
   \<and> url png_result = ''https://s3.reily.app/public/'' @ remote_path png_result
   \<and> remote_path png_result = folder_id png_result @ ''/'' @ original_filename png_result
   \<and> fst (handleUploadFileContent example_env hello_call example_world) = Inr hello_result
   \<and> spawned (snd (handleUploadFileContent example_env hello_call example_world)) =
       [\<lparr>command = [''curl'', ''-X'', ''PUT'', c_url hello_result, ''-T'', hello_temp,
                     ''-H'', ''Content-Type: '' @ c_mime_type hello_result, ''--silent'', ''--fail''],
         body = Some [0x68, 0x65, 0x6C, 0x6C, 0x6F]\<rparr>]
   \<and> c_url hello_result = ''https://s3.reily.app/public/'' @ c_remote_path hello_result
   \<and> c_remote_path hello_result = c_folder_id hello_result @ ''/'' @ c_filename hello_result"
proof -
  have r1: "handleUploadFile example_env png_call example_world =
      (Inr png_result, snd (handleUploadFile example_env png_call example_world))"
    using png_run by (simp add: prod_eq_iff)
  have r2: "handleUploadFileContent example_env hello_call example_world =
      (Inr hello_result, snd (handleUploadFileContent example_env hello_call example_world))"
    using hello_run by (simp add: prod_eq_iff)
  from success_record_consistent[of example_env png_call example_world png_result
      "snd (handleUploadFile example_env png_call example_world)" hello_call hello_result
      "snd (handleUploadFileContent example_env hello_call example_world)"] r1 r2
  have "url png_result = ''https://s3.reily.app/public/'' @ remote_path png_result
     \<and> remote_path png_result = folder_id png_result @ ''/'' @ original_filename png_result
     \<and> c_url hello_result = ''https://s3.reily.app/public/'' @ c_remote_path hello_result
     \<and> c_remote_path hello_result = c_folder_id hello_result @ ''/'' @ c_filename hello_result"
    by blast
  moreover have "url png_result = ''https://s3.reily.app/public/6f1c2a9e-0b7d-4c3a-9e55-1d2e3f4a5b6c/a.png''"
    "r_content_type png_result = ''image/png''"
    "c_url hello_result = ''https://s3.reily.app/public/6f1c2a9e-0b7d-4c3a-9e55-1d2e3f4a5b6c/hello.txt''"
    "c_mime_type hello_result = ''text/plain''"
    by (simp_all add: png_result_def hello_result_def)
  ultimately show ?thesis
    using png_run hello_run png_spawned hello_spawned by (simp add: hello_temp_def)
qed

end
